theory Spec2Isabelle
  imports Complex_Main "HOL-Library.Word" "HOL-Library.Log_Nat"
begin

section \<open>Go values used by the executor\<close>

subsection \<open>Errors\<close>

text \<open>
  A Go \<^verbatim>\<open>error\<close> value is either made by \<^verbatim>\<open>errors.New(msg)\<close> or by
  \<^verbatim>\<open>fmt.Errorf("%w...", e, ...)\<close>, which wraps \<^verbatim>\<open>e\<close> and carries the text that
  follows the wrapped error's own message. A nil error is \<open>None\<close> of \<open>error option\<close>.
\<close>

datatype error = ErrorsNew string | Errorf_w error string

fun Error :: "error \<Rightarrow> string" where
  "Error (ErrorsNew msg) = msg"
| "Error (Errorf_w e suffix) = Error e @ suffix"

text \<open>\<^verbatim>\<open>errors.Is(err, target)\<close>: walks the chain of wrapped errors.\<close>

fun errors_Is :: "error \<Rightarrow> error \<Rightarrow> bool" where
  "errors_Is (ErrorsNew msg) target = (ErrorsNew msg = target)"
| "errors_Is (Errorf_w e suffix) target = (Errorf_w e suffix = target \<or> errors_Is e target)"

definition ErrFailedToCreateInstance :: error where
  "ErrFailedToCreateInstance = ErrorsNew ''failed to create instance''"

definition ErrUnsupportedInstance :: error where
  "ErrUnsupportedInstance = ErrorsNew ''unsupported instance type''"

definition ErrAdditionalContainerFailed :: error where
  "ErrAdditionalContainerFailed = ErrorsNew ''additional container failed''"

text \<open>The verb \<^verbatim>\<open>%v\<close> on an error value, which may be nil.\<close>

definition fmt_v :: "error option \<Rightarrow> string" where
  "fmt_v e = (case e of None \<Rightarrow> ''<nil>'' | Some x \<Rightarrow> Error x)"

text \<open>\<^verbatim>\<open>fmt.Errorf("%w: %v", sentinel, e)\<close>\<close>

definition Errorf_w_v :: "error \<Rightarrow> error option \<Rightarrow> error" where
  "Errorf_w_v sentinel e = Errorf_w sentinel ('': '' @ fmt_v e)"

subsection \<open>Decimal formatting and joining\<close>

definition digit_char :: "nat \<Rightarrow> char" where
  "digit_char d = ''0123456789'' ! (d mod 10)"

fun digits10 :: "nat \<Rightarrow> string" where
  "digits10 n = (if n < 10 then [digit_char n] else digits10 (n div 10) @ [digit_char (n mod 10)])"

declare digits10.simps [simp del]

text \<open>\<^verbatim>\<open>strconv.FormatUint(u, 10)\<close> and \<^verbatim>\<open>strconv.FormatInt(i, 10)\<close>.\<close>

definition FormatUint :: "64 word \<Rightarrow> string" where
  "FormatUint u = digits10 (unat u)"

definition FormatInt :: "64 word \<Rightarrow> string" where
  "FormatInt i = (if sint i < 0 then CHR ''-'' # digits10 (nat (- sint i)) else digits10 (nat (sint i)))"

text \<open>\<^verbatim>\<open>strings.Join(elems, sep)\<close>\<close>

fun Join :: "string list \<Rightarrow> string \<Rightarrow> string" where
  "Join [] sep = []"
| "Join [x] sep = x"
| "Join (x # y # ys) sep = x @ sep @ Join (y # ys) sep"

subsection \<open>Floating-point quotas\<close>

text \<open>
  The CPU quota is a \<^verbatim>\<open>float32\<close>. A value is a NaN, an infinity, the negative
  zero, or a finite number (\<open>Finite 0\<close> is the positive zero). Every finite
  \<^verbatim>\<open>float32\<close> is a rational number, so the finite values of the model include
  those of the machine type. \<^verbatim>\<open>float64(x)\<close> of a \<^verbatim>\<open>float32\<close> is exact, and so is
  \<^verbatim>\<open>float32(y)\<close> of a \<^verbatim>\<open>float64\<close> that holds a \<^verbatim>\<open>float32\<close> value; both
  conversions are the identity on this type.
\<close>

datatype float = NaN | NegInf | NegZero | Finite rat | PosInf

text \<open>The position of a value on the extended number line; a NaN has none.\<close>

fun fkey :: "float \<Rightarrow> (int \<times> rat) option" where
  "fkey NaN = None"
| "fkey NegInf = Some (- 1, 0)"
| "fkey NegZero = Some (0, 0)"
| "fkey (Finite r) = Some (0, r)"
| "fkey PosInf = Some (1, 0)"

text \<open>Go's comparison operators on floats: every comparison with a NaN is false.\<close>

definition f_lt :: "float \<Rightarrow> float \<Rightarrow> bool" where
  "f_lt x y = (case (fkey x, fkey y) of
      (Some (i, r), Some (j, s)) \<Rightarrow> i < j \<or> (i = j \<and> r < s)
    | _ \<Rightarrow> False)"

definition f_eq :: "float \<Rightarrow> float \<Rightarrow> bool" where
  "f_eq x y = (case (fkey x, fkey y) of
      (Some (i, r), Some (j, s)) \<Rightarrow> i = j \<and> r = s
    | _ \<Rightarrow> False)"

definition f_le :: "float \<Rightarrow> float \<Rightarrow> bool" where
  "f_le x y = (f_lt x y \<or> f_eq x y)"

definition Signbit :: "float \<Rightarrow> bool" where
  "Signbit x = (case x of NegInf \<Rightarrow> True | NegZero \<Rightarrow> True | Finite r \<Rightarrow> r < 0 | _ \<Rightarrow> False)"

text \<open>
  \<^verbatim>\<open>math.Min(x, y)\<close> of the Go standard library, with its special cases in the
  library's order: a negative infinity wins, then a NaN, then the negative zero
  among zeros.
\<close>

definition math_Min :: "float \<Rightarrow> float \<Rightarrow> float" where
  "math_Min x y =
     (if x = NegInf \<or> y = NegInf then NegInf
      else if x = NaN \<or> y = NaN then NaN
      else if f_eq x (Finite 0) \<and> f_eq x y then (if Signbit x then x else y)
      else if f_lt x y then x
      else y)"

definition float64 :: "float \<Rightarrow> float" where
  "float64 x = x"

definition float32 :: "float \<Rightarrow> float" where
  "float32 x = x"

section \<open>Resource clamp\<close>

definition clampCPU :: "float \<Rightarrow> float \<Rightarrow> float" where
  "clampCPU requested available = float32 (math_Min (float64 requested) (float64 available))"

definition clampMemory :: "32 word \<Rightarrow> 32 word \<Rightarrow> 32 word" where
  "clampMemory requested available = (if requested > available then available else requested)"

section \<open>Clock synchronisation command\<close>

text \<open>
  A \<^verbatim>\<open>time.Time\<close> in UTC, as the calendar fields that \<^verbatim>\<open>t.Date()\<close> and
  \<^verbatim>\<open>t.Clock()\<close> return.
\<close>

record Time =
  Year :: int
  Month :: nat
  Day :: nat
  Hour :: nat
  Minute :: nat
  Second :: nat

definition valid_Time :: "Time \<Rightarrow> bool" where
  "valid_Time t = (1 \<le> Month t \<and> Month t \<le> 12 \<and> 1 \<le> Day t \<and> Day t \<le> 31 \<and>
     Hour t < 24 \<and> Minute t < 60 \<and> Second t < 60)"

text \<open>
  \<^verbatim>\<open>appendInt(b, x, width)\<close> of package time: the decimal form of \<open>x\<close>,
  zero-padded on the left to at least \<open>width\<close> digits, after a minus sign when
  \<open>x\<close> is negative.
\<close>

definition appendInt :: "int \<Rightarrow> nat \<Rightarrow> string" where
  "appendInt x width =
     (let ds = digits10 (nat \<bar>x\<bar>)
      in (if x < 0 then ''-'' else '''') @ replicate (width - length ds) CHR ''0'' @ ds)"

text \<open>
  \<^verbatim>\<open>Time.Format(layout)\<close> for the layout elements that start with a digit, in
  the order in which the library's scanner tries them: \<^verbatim>\<open>01\<close> to \<^verbatim>\<open>06\<close>,
  \<^verbatim>\<open>15\<close> before \<^verbatim>\<open>1\<close>, \<^verbatim>\<open>2006\<close> before \<^verbatim>\<open>2\<close>, then \<^verbatim>\<open>3\<close>, \<^verbatim>\<open>4\<close>,
  \<^verbatim>\<open>5\<close>. Any other character is copied. The layout elements that start with
  a letter, a sign, an underscore or a dot, and the day of the year
  (\<^verbatim>\<open>002\<close>), are not part of this model; the layout of \<^verbatim>\<open>TimeSyncCommand\<close>
  has none of them.
\<close>

definition hour12 :: "nat \<Rightarrow> nat" where
  "hour12 h = (if h mod 12 = 0 then 12 else h mod 12)"

fun Format :: "Time \<Rightarrow> string \<Rightarrow> string" where
  "Format t [] = []"
| "Format t (c # cs) =
     (if c = CHR ''0'' then
        (case cs of
           d # rest \<Rightarrow>
             (if d = CHR ''1'' then appendInt (int (Month t)) 2 @ Format t rest
              else if d = CHR ''2'' then appendInt (int (Day t)) 2 @ Format t rest
              else if d = CHR ''3'' then appendInt (int (hour12 (Hour t))) 2 @ Format t rest
              else if d = CHR ''4'' then appendInt (int (Minute t)) 2 @ Format t rest
              else if d = CHR ''5'' then appendInt (int (Second t)) 2 @ Format t rest
              else if d = CHR ''6'' then appendInt (Year t mod 100) 2 @ Format t rest
              else c # Format t cs)
         | [] \<Rightarrow> [c])
      else if c = CHR ''1'' then
        (case cs of
           d # rest \<Rightarrow>
             (if d = CHR ''5'' then appendInt (int (Hour t)) 2 @ Format t rest
              else appendInt (int (Month t)) 0 @ Format t cs)
         | [] \<Rightarrow> appendInt (int (Month t)) 0)
      else if c = CHR ''2'' then
        (if take 3 cs = ''006'' then appendInt (Year t) 4 @ Format t (drop 3 cs)
         else appendInt (int (Day t)) 0 @ Format t cs)
      else if c = CHR ''3'' then appendInt (int (hour12 (Hour t))) 0 @ Format t cs
      else if c = CHR ''4'' then appendInt (int (Minute t)) 0 @ Format t cs
      else if c = CHR ''5'' then appendInt (int (Second t)) 0 @ Format t cs
      else c # Format t cs)"

text \<open>\<^verbatim>\<open>fmt.Sprintf("sudo date -u %s\n", t.Format("010215042006"))\<close>\<close>

definition TimeSyncCommand :: "Time \<Rightarrow> string" where
  "TimeSyncCommand t = ''sudo date -u '' @ Format t ''010215042006'' @ ''\<newline>''"

text \<open>The fixed-width groups of the timestamp, written out digit by digit.\<close>

definition two_digits :: "nat \<Rightarrow> string" where
  "two_digits n = [digit_char (n div 10), digit_char (n mod 10)]"

definition four_digits :: "nat \<Rightarrow> string" where
  "four_digits n = [digit_char (n div 1000), digit_char (n div 100 mod 10),
     digit_char (n div 10 mod 10), digit_char (n mod 10)]"

definition is_digit :: "char \<Rightarrow> bool" where
  "is_digit c = (c \<in> set ''0123456789'')"

section \<open>Instance dispatcher\<close>

subsection \<open>Descriptors\<close>

text \<open>
  The platform enumeration of the agent protocol. The dispatcher names
  \<^verbatim>\<open>Platform_LINUX\<close> and \<^verbatim>\<open>Platform_WINDOWS\<close>; any other value is kept with the
  text that its \<^verbatim>\<open>String()\<close> method returns.
\<close>

datatype Platform = Platform_LINUX | Platform_WINDOWS | Platform_other string

fun Platform_String :: "Platform \<Rightarrow> string" where
  "Platform_String Platform_LINUX = ''LINUX''"
| "Platform_String Platform_WINDOWS = ''WINDOWS''"
| "Platform_String (Platform_other name) = name"

text \<open>\<^verbatim>\<open>strings.ToLower\<close> and \<^verbatim>\<open>strings.Title\<close> on ASCII text.\<close>

definition is_upper :: "char \<Rightarrow> bool" where
  "is_upper c = (65 \<le> (of_char c :: nat) \<and> (of_char c :: nat) \<le> 90)"

definition is_lower :: "char \<Rightarrow> bool" where
  "is_lower c = (97 \<le> (of_char c :: nat) \<and> (of_char c :: nat) \<le> 122)"

definition lower_char :: "char \<Rightarrow> char" where
  "lower_char c = (if is_upper c then char_of ((of_char c :: nat) + 32) else c)"

definition upper_char :: "char \<Rightarrow> char" where
  "upper_char c = (if is_lower c then char_of ((of_char c :: nat) - 32) else c)"

definition ToLower :: "string \<Rightarrow> string" where
  "ToLower s = map lower_char s"

definition isSeparator :: "char \<Rightarrow> bool" where
  "isSeparator c = (\<not> (is_upper c \<or> is_lower c \<or> is_digit c \<or> c = CHR ''_''))"

fun Title_from :: "char \<Rightarrow> string \<Rightarrow> string" where
  "Title_from prev [] = []"
| "Title_from prev (c # cs) = (if isSeparator prev then upper_char c else c) # Title_from c cs"

definition Title :: "string \<Rightarrow> string" where
  "Title s = Title_from CHR '' '' s"

text \<open>\<^verbatim>\<open>strings.EqualFold\<close> on ASCII text: equality up to letter case.\<close>

definition EqualFold :: "string \<Rightarrow> string \<Rightarrow> bool" where
  "EqualFold s t = (ToLower s = ToLower t)"

record PortMapping =
  ContainerPort :: "32 word"
  HostPort :: "32 word"

record AdditionalContainer =
  ac_Name :: string
  ac_Image :: string
  ac_Command :: "string list"
  ac_Environment :: "string \<rightharpoonup> string"
  ac_Cpu :: float
  ac_Memory :: "32 word"
  ac_Ports :: "PortMapping list"

text \<open>
  Additional containers are held by pointer (\<^verbatim>\<open>[]*api.AdditionalContainer\<close>):
  a pointer is an address, the objects live in a store, and the nil pointer is an
  address the store does not hold.
\<close>

type_synonym addr = nat
type_synonym store = "addr \<rightharpoonup> AdditionalContainer"

text \<open>
  The isolation of a persistent worker: none, or a Parallels virtual machine
  (image, user, password and the platform of its guest), or a value whose type
  is not set.
\<close>

datatype Isolation = Isolation_None | Isolation_Parallels string string string Platform | Isolation_unset

record api_ContainerInstance =
  ci_Image :: string
  ci_Cpu :: float
  ci_Memory :: "32 word"
  ci_AdditionalContainers :: "addr list"
  ci_Platform :: Platform
  ci_OsVersion :: string

record api_PipeInstance =
  pi_Cpu :: float
  pi_Memory :: "32 word"

record api_PrebuiltImageInstance =
  pii_Repository :: string
  pii_Reference :: string
  pii_Dockerfile :: string
  pii_Arguments :: "string \<rightharpoonup> string"

record api_DockerBuilder =
  db_Platform :: Platform
  db_OsVersion :: string

text \<open>
  What \<^verbatim>\<open>ptypes.UnmarshalAny\<close> leaves in \<^verbatim>\<open>dynamicInstance.Message\<close>: one of the
  five message types of the type switch, or another registered message, kept
  with its Go type name (the \<^verbatim>\<open>%T\<close> of the default branch). A persistent-worker
  message carries an isolation pointer, nil when \<open>None\<close>.
\<close>

datatype Message =
    Msg_ContainerInstance api_ContainerInstance
  | Msg_PipeInstance api_PipeInstance
  | Msg_PrebuiltImageInstance api_PrebuiltImageInstance
  | Msg_PersistentWorkerInstance "Isolation option"
  | Msg_DockerBuilder api_DockerBuilder
  | Msg_other string

record Any =
  TypeUrl :: string
  Value :: "8 word list"

subsection \<open>Instances\<close>

text \<open>The platform of a container: its agent path and agent volume directory.\<close>

datatype platform = NewUnix | NewWindows string

record ContainerInstance =
  CI_Image :: string
  CI_CPU :: float
  CI_Memory :: "32 word"
  CI_AdditionalContainers :: "addr list"
  CI_Platform :: platform
  CI_CustomWorkingDir :: string

record PipeStage =
  ps_Image :: string
  ps_CommandFrom :: string
  ps_CommandTo :: string

record PipeInstance =
  PI_CPU :: float
  PI_Memory :: "32 word"
  PI_Stages :: "PipeStage list"
  PI_CustomWorkingDir :: string

record PrebuiltInstance =
  PB_Image :: string
  PB_Dockerfile :: string
  PB_Arguments :: "string \<rightharpoonup> string"

text \<open>
  An \<^verbatim>\<open>abstract.Instance\<close>: one of the three instances built by the dispatcher,
  or an instance built by package \<^verbatim>\<open>persistentworker\<close>, kept by a name.
\<close>

datatype Instance =
    Inst_Container ContainerInstance
  | Inst_Pipe PipeInstance
  | Inst_Prebuilt PrebuiltInstance
  | Inst_Worker string

text \<open>
  What the dispatcher uses and these sources do not define: the host's
  \<^verbatim>\<open>runtime.GOOS\<close>, the protocol library's \<^verbatim>\<open>UnmarshalAny\<close>, the standard
  library's \<^verbatim>\<open>path.Join\<close>, and the functions \<^verbatim>\<open>PipeStagesFromCommands\<close> and
  \<^verbatim>\<open>persistentworker.New\<close>. Each is a parameter. A command is kept by its name.
  A Go result pair \<^verbatim>\<open>(value, error)\<close> is a pair of options, nil being \<open>None\<close>.
\<close>

record Dispatch =
  GOOS :: string
  UnmarshalAny :: "Any \<Rightarrow> error + Message"
  path_Join :: "string \<Rightarrow> string \<Rightarrow> string"
  PipeStagesFromCommands :: "string list \<Rightarrow> PipeStage list \<times> error option"
  persistentworker_New :: "Isolation option \<Rightarrow> Instance option \<times> error option"

text \<open>The calls that the dispatcher makes to the functions that build instances elsewhere.\<close>

datatype dispatch_call = Call_PipeStagesFromCommands "string list" | Call_persistentworker_New "Isolation option"

record Dispatched =
  d_instance :: "Instance option"
  d_err :: "error option"
  d_calls :: "dispatch_call list"

definition NewFromProto :: "Dispatch \<Rightarrow> Any option \<Rightarrow> string list \<Rightarrow> string \<Rightarrow> Dispatched" where
  "NewFromProto d anyInstance commands customWorkingDir =
     (case anyInstance of
        None \<Rightarrow>
          \<lparr>d_instance = None,
           d_err = Some (Errorf_w ErrFailedToCreateInstance
             '': got nil instance which means it's probably not supported by the CLI''),
           d_calls = []\<rparr>
      | Some a \<Rightarrow>
          (case UnmarshalAny d a of
             Inl e \<Rightarrow>
               \<lparr>d_instance = None,
                d_err = Some (Errorf_w ErrFailedToCreateInstance
                  ('': failed to unmarshal task's instance: '' @ Error e)),
                d_calls = []\<rparr>
           | Inr (Msg_ContainerInstance inst) \<Rightarrow>
               (case ci_Platform inst of
                  Platform_LINUX \<Rightarrow>
                    \<lparr>d_instance = Some (Inst_Container
                       \<lparr>CI_Image = ci_Image inst, CI_CPU = ci_Cpu inst, CI_Memory = ci_Memory inst,
                        CI_AdditionalContainers = ci_AdditionalContainers inst,
                        CI_Platform = NewUnix, CI_CustomWorkingDir = customWorkingDir\<rparr>),
                     d_err = None, d_calls = []\<rparr>
                | Platform_WINDOWS \<Rightarrow>
                    \<lparr>d_instance = Some (Inst_Container
                       \<lparr>CI_Image = ci_Image inst, CI_CPU = ci_Cpu inst, CI_Memory = ci_Memory inst,
                        CI_AdditionalContainers = ci_AdditionalContainers inst,
                        CI_Platform = NewWindows (ci_OsVersion inst),
                        CI_CustomWorkingDir = customWorkingDir\<rparr>),
                     d_err = None, d_calls = []\<rparr>
                | Platform_other name \<Rightarrow>
                    \<lparr>d_instance = None,
                     d_err = Some (Errorf_w ErrFailedToCreateInstance
                       ('': unsupported container instance platform: '' @ name)),
                     d_calls = []\<rparr>)
           | Inr (Msg_PipeInstance inst) \<Rightarrow>
               (case PipeStagesFromCommands d commands of
                  (stages, Some e) \<Rightarrow>
                    \<lparr>d_instance = None, d_err = Some e,
                     d_calls = [Call_PipeStagesFromCommands commands]\<rparr>
                | (stages, None) \<Rightarrow>
                    \<lparr>d_instance = Some (Inst_Pipe
                       \<lparr>PI_CPU = pi_Cpu inst, PI_Memory = pi_Memory inst, PI_Stages = stages,
                        PI_CustomWorkingDir = customWorkingDir\<rparr>),
                     d_err = None, d_calls = [Call_PipeStagesFromCommands commands]\<rparr>)
           | Inr (Msg_PrebuiltImageInstance inst) \<Rightarrow>
               \<lparr>d_instance = Some (Inst_Prebuilt
                  \<lparr>PB_Image = path_Join d ''gcr.io'' (pii_Repository inst) @ '':'' @ pii_Reference inst,
                   PB_Dockerfile = pii_Dockerfile inst, PB_Arguments = pii_Arguments inst\<rparr>),
                d_err = None, d_calls = []\<rparr>
           | Inr (Msg_PersistentWorkerInstance isolation) \<Rightarrow>
               \<lparr>d_instance = fst (persistentworker_New d isolation),
                d_err = snd (persistentworker_New d isolation),
                d_calls = [Call_persistentworker_New isolation]\<rparr>
           | Inr (Msg_DockerBuilder inst) \<Rightarrow>
               (let instanceOS = ToLower (Platform_String (db_Platform inst))
                in if GOOS d \<noteq> instanceOS then
                     \<lparr>d_instance = None,
                      d_err = Some (Errorf_w ErrFailedToCreateInstance
                        ('': cannot run '' @ Title instanceOS @ '' Docker Builder instance on this platform'')),
                      d_calls = []\<rparr>
                   else
                     \<lparr>d_instance = fst (persistentworker_New d (Some Isolation_None)),
                      d_err = snd (persistentworker_New d (Some Isolation_None)),
                      d_calls = [Call_persistentworker_New (Some Isolation_None)]\<rparr>)
           | Inr (Msg_other typ) \<Rightarrow>
               \<lparr>d_instance = None, d_err = Some (Errorf_w ErrUnsupportedInstance ('': '' @ typ)),
                d_calls = []\<rparr>))"

text \<open>
  The operating system that a descriptor asks of the host: the platform of a
  Docker Builder, and the platform named by a persistent worker's isolation.
\<close>

fun requiredOS :: "Message \<Rightarrow> Platform option" where
  "requiredOS (Msg_DockerBuilder inst) = Some (db_Platform inst)"
| "requiredOS (Msg_PersistentWorkerInstance (Some (Isolation_Parallels vmImage sshUser sshPassword p))) = Some p"
| "requiredOS m = None"

section \<open>Container orchestrator\<close>

subsection \<open>Run configuration, parameters and the container backend\<close>

definition mebi :: "'a::len word" where
  "mebi = 1024 * 1024"

datatype MountType = MountTypeBind | MountTypeVolume

record ContainerMount =
  m_Type :: MountType
  m_Source :: string
  m_Target :: string

record ContainerResources =
  NanoCPUs :: "64 word"
  r_Memory :: "64 word"

record ContainerCreateInput =
  in_Image :: string
  Entrypoint :: "string list"
  in_Command :: "string list"
  Env :: "string \<rightharpoonup> string"
  Mounts :: "ContainerMount list"
  Resources :: ContainerResources
  Network :: string
  DisableSELinux :: bool

text \<open>
  The two fields of the backend's system information that the orchestrator
  reads, as unsigned 64-bit counts, and the wait result of a container: its
  exit code and the text of its error.
\<close>

record Info =
  TotalCPUs :: "64 word"
  TotalMemoryBytes :: "64 word"

record ContainerWaitResult =
  StatusCode :: "64 word"
  wr_Error :: string

text \<open>
  What the two channels of \<^verbatim>\<open>ContainerWait\<close> deliver for a container: a wait
  result on the first, an error value (which may be nil) on the second, or
  nothing at all.
\<close>

datatype wait_delivery = OnWaitChan ContainerWaitResult | OnErrChan "error option" | NoDelivery

text \<open>
  The container backend is an interface; each method is given by what it
  answers to a request. \<^verbatim>\<open>ShouldPullImage\<close> is the pull policy of the container
  options, which consults the backend.
\<close>

record Backend =
  SystemInfo :: "error + Info"
  ShouldPullImage :: "string \<Rightarrow> bool"
  ImagePull :: "string \<Rightarrow> error option"
  ContainerCreate :: "ContainerCreateInput \<Rightarrow> error + string"
  ContainerStart :: "string \<Rightarrow> error option"
  ContainerLogs :: "string \<Rightarrow> error + string list"
  ContainerWait :: "string \<Rightarrow> wait_delivery"
  ContainerDelete :: "string \<Rightarrow> error option"

record RunConfig =
  ContainerEndpoint :: string
  DirectEndpoint :: string
  ServerSecret :: string
  ClientSecret :: string
  TaskID :: "64 word"
  ProjectDir :: string
  DirtyMode :: bool
  NoCleanup :: bool
  ContainerBackend :: Backend

record Params =
  P_Image :: string
  P_CPU :: float
  P_Memory :: "32 word"
  P_AdditionalContainers :: "addr list"
  P_CommandFrom :: string
  P_CommandTo :: string
  P_Platform :: platform
  P_AgentVolumeName :: string
  P_WorkingVolumeName :: string
  P_WorkingDirectory :: string

text \<open>
  What the orchestrator uses and these sources do not define: the host's
  \<^verbatim>\<open>runtime.GOOS\<close>, the Cloud Build heuristic and its network name, the
  standard library's \<^verbatim>\<open>filepath.Dir\<close>, the two path methods of a platform, and
  the float-to-integer conversion \<^verbatim>\<open>int64(x * nano)\<close>. The last field is the
  choice that the Go runtime makes in a \<^verbatim>\<open>select\<close> among the channels that
  have a message.
\<close>

record Runtime =
  runtime_GOOS :: string
  GetCloudBuildIP :: string
  CloudBuildNetworkName :: string
  filepath_Dir :: "string \<Rightarrow> string"
  ContainerAgentPath :: "platform \<Rightarrow> string"
  ContainerAgentVolumeDir :: "platform \<Rightarrow> string"
  int64_nano :: "float \<Rightarrow> 64 word"
  select_pick :: nat

text \<open>
  \<^verbatim>\<open>float32(n)\<close> of an unsigned 64-bit count: exact up to 24 bits, otherwise
  rounded to the nearest value with a 24-bit significand, ties to even.
\<close>

definition float32_of_uint64 :: "64 word \<Rightarrow> float" where
  "float32_of_uint64 w =
     (let n = unat w;
          e = (if n < 2 ^ 24 then 0 else floorlog 2 n - 24);
          q = n div 2 ^ e;
          r = n mod 2 ^ e;
          half = 2 ^ e div 2;
          q' = (if half < r \<or> (0 < e \<and> r = half \<and> odd q) then q + 1 else q)
      in Finite (of_nat (q' * 2 ^ e)))"

subsection \<open>What a run does, as a trace\<close>

datatype level = Debug | Info | Warn | Failure

datatype ctx_name = additionalContainersCtx | logReaderCtx

datatype wg_name = additionalContainersWG | logReaderWg

datatype goroutine = Sidecar nat | LogReader

datatype backend_call =
    Call_SystemInfo
  | Call_ImagePull string
  | Call_ContainerCreate ContainerCreateInput
  | Call_ContainerStart string
  | Call_ContainerLogs string
  | Call_ContainerWait string
  | Call_ContainerDelete string

text \<open>
  An event of a goroutine: a log line (logger scope, level, text), the end of
  a scoped logger, a backend call, the cancellation of a context, the start of
  a wait on a wait group, and the start of a goroutine.
\<close>

datatype event =
    Log string level string
  | Finish string bool
  | Backend backend_call
  | Cancel ctx_name
  | Wait wg_name
  | Go goroutine

text \<open>
  How a function ends: it returns an error value (nil when \<open>None\<close>), it blocks
  for ever, or it panics on a nil pointer.
\<close>

datatype outcome = Returned "error option" | Blocked | Panicked

subsection \<open>Image pull helper\<close>

text \<open>
  The helper logs through a logger scoped to \<^verbatim>\<open>image pull\<close>. (A nil logger is
  replaced by one that writes nowhere; the model keeps the lines.)
\<close>

definition pullHelper :: "Backend \<Rightarrow> string \<Rightarrow> event list \<times> error option" where
  "pullHelper backend reference =
     (if \<not> ShouldPullImage backend reference then ([], None)
      else
        (case ImagePull backend reference of
           Some e \<Rightarrow>
             ([Log ''image pull'' Info (''Pulling image '' @ reference @ ''...''),
               Backend (Call_ImagePull reference),
               Log ''image pull'' Failure (''Failed to pull '' @ reference @ '': '' @ Error e),
               Finish ''image pull'' False],
              Some (Errorf_w_v ErrAdditionalContainerFailed (Some e)))
         | None \<Rightarrow>
             ([Log ''image pull'' Info (''Pulling image '' @ reference @ ''...''),
               Backend (Call_ImagePull reference),
               Finish ''image pull'' True],
              None)))"

subsection \<open>Additional containers\<close>

definition port_mapping_warning :: "string \<Rightarrow> event" where
  "port_mapping_warning name =
     Log [] Warn (''port mappings are unsupported by the Cirrus CLI, please tell the application ''
       @ ''running in the additional container '' @ [CHR 0x27] @ name @ [CHR 0x27]
       @ '' to use a different port'')"

text \<open>The loop over the port mappings: it warns at the first host port and breaks.\<close>

fun warn_port_mappings :: "string \<Rightarrow> PortMapping list \<Rightarrow> event list" where
  "warn_port_mappings name [] = []"
| "warn_port_mappings name (portMapping # rest) =
     (if HostPort portMapping \<noteq> 0 then [port_mapping_warning name]
      else warn_port_mappings name rest)"

text \<open>The deferred cleanup of an additional container.\<close>

definition cleanup_additional :: "Backend \<Rightarrow> bool \<Rightarrow> string \<Rightarrow> event list" where
  "cleanup_additional backend noCleanup cont =
     (if noCleanup then
        [Log [] Info (''not cleaning up additional container '' @ cont
           @ '', don't forget to remove it with '' @ [CHR 0x22] @ ''docker rm -v '' @ cont @ [CHR 0x22])]
      else
        [Log [] Debug (''cleaning up additional container '' @ cont),
         Backend (Call_ContainerDelete cont)]
        @ (case ContainerDelete backend cont of
             None \<Rightarrow> []
           | Some e \<Rightarrow> [Log [] Warn (''Error while removing additional container: '' @ Error e)]))"

text \<open>The creation input of an additional container.\<close>

definition additionalContainerInput ::
  "Runtime \<Rightarrow> AdditionalContainer \<Rightarrow> string \<Rightarrow> ContainerCreateInput" where
  "additionalContainerInput rt additionalContainer connectToContainer =
     \<lparr>in_Image = ac_Image additionalContainer,
      Entrypoint = [],
      in_Command = ac_Command additionalContainer,
      Env = ac_Environment additionalContainer,
      Mounts = [],
      Resources =
        \<lparr>NanoCPUs = int64_nano rt (ac_Cpu additionalContainer),
         r_Memory = ucast (ac_Memory additionalContainer * mebi)\<rparr>,
      Network = ''container:'' @ connectToContainer,
      DisableSELinux = False\<rparr>"

definition runAdditionalContainer ::
  "Runtime \<Rightarrow> Backend \<Rightarrow> AdditionalContainer \<Rightarrow> string \<Rightarrow> bool \<Rightarrow> event list \<times> outcome" where
  "runAdditionalContainer rt backend additionalContainer connectToContainer noCleanup =
     (case pullHelper backend (ac_Image additionalContainer) of
        (ev0, Some e) \<Rightarrow> (ev0, Returned (Some e))
      | (ev0, None) \<Rightarrow>
          (let input = additionalContainerInput rt additionalContainer connectToContainer;
               ev1 = ev0 @ [Log [] Debug ''creating additional container'',
                            Backend (Call_ContainerCreate input)]
           in case ContainerCreate backend input of
                Inl e \<Rightarrow> (ev1, Returned (Some (Errorf_w_v ErrAdditionalContainerFailed (Some e))))
              | Inr cont \<Rightarrow>
                  (let cleanup = cleanup_additional backend noCleanup cont;
                       ev2 = ev1
                         @ warn_port_mappings (ac_Name additionalContainer) (ac_Ports additionalContainer)
                         @ [Log [] Debug (''starting additional container '' @ cont),
                            Backend (Call_ContainerStart cont)]
                   in case ContainerStart backend cont of
                        Some e \<Rightarrow>
                          (ev2 @ cleanup,
                           Returned (Some (Errorf_w_v ErrAdditionalContainerFailed (Some e))))
                      | None \<Rightarrow>
                          (let ev3 = ev2
                                 @ [Log [] Debug (''waiting for additional container '' @ cont @ '' to finish''),
                                    Backend (Call_ContainerWait cont)]
                           in case ContainerWait backend cont of
                                OnWaitChan res \<Rightarrow>
                                  (ev3
                                   @ [Log [] Debug (''additional container exited with '' @ wr_Error res
                                        @ '' error and exit code '' @ FormatInt (StatusCode res))]
                                   @ cleanup,
                                   Returned None)
                              | OnErrChan e \<Rightarrow>
                                  (ev3 @ cleanup,
                                   Returned (Some (Errorf_w_v ErrAdditionalContainerFailed e)))
                              | NoDelivery \<Rightarrow> (ev3, Blocked)))))"

text \<open>
  An additional container is created when its image pull does not fail and the
  backend creates it; only then does the code reach the loop over its port
  mappings.
\<close>

definition sidecar_created :: "Runtime \<Rightarrow> Backend \<Rightarrow> AdditionalContainer \<Rightarrow> string \<Rightarrow> bool" where
  "sidecar_created rt backend additionalContainer connectToContainer =
     (snd (pullHelper backend (ac_Image additionalContainer)) = None \<and>
      (case ContainerCreate backend (additionalContainerInput rt additionalContainer connectToContainer) of
         Inl e \<Rightarrow> False | Inr cont \<Rightarrow> True))"

subsection \<open>The main container\<close>

text \<open>\<^verbatim>\<open>strings.HasPrefix\<close> and \<^verbatim>\<open>strings.TrimPrefix\<close>.\<close>

definition HasPrefix :: "string \<Rightarrow> string \<Rightarrow> bool" where
  "HasPrefix s pre = (take (length pre) s = pre)"

definition TrimPrefix :: "string \<Rightarrow> string \<Rightarrow> string" where
  "TrimPrefix s pre = (if HasPrefix s pre then drop (length pre) s else s)"

text \<open>The two nested loops that collect the container-side ports.\<close>

definition wait_for_ports :: "AdditionalContainer list \<Rightarrow> string list" where
  "wait_for_ports additionalContainers =
     concat (map (\<lambda>additionalContainer.
        map (\<lambda>portMapping. FormatUint (ucast (ContainerPort portMapping))) (ac_Ports additionalContainer))
       additionalContainers)"

text \<open>
  The creation input of the main container, as the orchestrator builds it
  before it calls \<^verbatim>\<open>ContainerCreate\<close>.
\<close>

definition mainContainerInput ::
  "Runtime \<Rightarrow> RunConfig \<Rightarrow> Params \<Rightarrow> AdditionalContainer list \<Rightarrow> ContainerCreateInput" where
  "mainContainerInput rt config params additionalContainers =
     (let input0 =
            \<lparr>in_Image = P_Image params,
             Entrypoint =
               [ContainerAgentPath rt (P_Platform params),
                ''-api-endpoint'',
                ContainerEndpoint config,
                ''-server-token'',
                ServerSecret config,
                ''-client-token'',
                ClientSecret config,
                ''-task-id'',
                FormatInt (TaskID config),
                ''-command-from'',
                P_CommandFrom params,
                ''-command-to'',
                P_CommandTo params],
             in_Command = [],
             Env = Map.empty,
             Mounts =
               [\<lparr>m_Type = MountTypeVolume, m_Source = P_AgentVolumeName params,
                 m_Target = ContainerAgentVolumeDir rt (P_Platform params)\<rparr>],
             Resources =
               \<lparr>NanoCPUs = int64_nano rt (P_CPU params),
                r_Memory = ucast (P_Memory params * mebi)\<rparr>,
             Network = [],
             DisableSELinux = False\<rparr>;
          input1 =
            (if runtime_GOOS rt = ''linux'' then
               (if GetCloudBuildIP rt \<noteq> [] then input0\<lparr>Network := CloudBuildNetworkName rt\<rparr>
                else input0)\<lparr>DisableSELinux := True\<rparr>
             else input0);
          input2 =
            (if HasPrefix (ContainerEndpoint config) ''unix:'' then
               (let socketPath = TrimPrefix (ContainerEndpoint config) ''unix:'';
                    socketDir = filepath_Dir rt socketPath
                in input1\<lparr>Mounts := Mounts input1
                     @ [\<lparr>m_Type = MountTypeBind, m_Source = socketDir, m_Target = socketDir\<rparr>]\<rparr>)
             else input1);
          input3 =
            (if DirtyMode config then
               input2\<lparr>Mounts := Mounts input2
                 @ [\<lparr>m_Type = MountTypeBind, m_Source = ProjectDir config,
                     m_Target = P_WorkingDirectory params\<rparr>]\<rparr>
             else
               input2\<lparr>Mounts := Mounts input2
                 @ [\<lparr>m_Type = MountTypeVolume, m_Source = P_WorkingVolumeName params,
                     m_Target = P_WorkingDirectory params\<rparr>]\<rparr>)
      in if length additionalContainers > 0 then
           input3\<lparr>Env := (Env input3)(''CIRRUS_PORTS_WAIT_FOR'' \<mapsto>
             Join (wait_for_ports additionalContainers) '','')\<rparr>
         else input3)"

subsection \<open>Clamping the quotas in place\<close>

definition clampAdditionalContainer :: "float \<Rightarrow> 32 word \<Rightarrow> AdditionalContainer \<Rightarrow> AdditionalContainer" where
  "clampAdditionalContainer availableCPU availableMemory additionalContainer =
     additionalContainer
       \<lparr>ac_Cpu := clampCPU (ac_Cpu additionalContainer) availableCPU,
        ac_Memory := clampMemory (ac_Memory additionalContainer) availableMemory\<rparr>"

text \<open>
  The loop over \<^verbatim>\<open>params.AdditionalContainers\<close>: each pointer is followed and
  the object behind it is written. The flag is false when a pointer was nil,
  where the Go code panics; the store then holds the writes made so far.
\<close>

fun clampAdditionalContainers :: "float \<Rightarrow> 32 word \<Rightarrow> addr list \<Rightarrow> store \<Rightarrow> store \<times> bool" where
  "clampAdditionalContainers availableCPU availableMemory [] s = (s, True)"
| "clampAdditionalContainers availableCPU availableMemory (p # ps) s =
     (case s p of
        None \<Rightarrow> (s, False)
      | Some additionalContainer \<Rightarrow>
          clampAdditionalContainers availableCPU availableMemory ps
            (s(p \<mapsto> clampAdditionalContainer availableCPU availableMemory additionalContainer)))"

subsection \<open>Waiting and teardown\<close>

text \<open>
  A message that the \<^verbatim>\<open>select\<close> of the orchestrator can receive, one
  constructor for each of its three cases.
\<close>

datatype received =
    From_waitChan ContainerWaitResult
  | From_errChan "error option"
  | From_additionalContainersErrChan error

text \<open>
  The errors that the goroutines of the additional containers send: a
  goroutine sends what \<^verbatim>\<open>runAdditionalContainer\<close> returns when it is not nil.
\<close>

definition sent_errors :: "(event list \<times> outcome) list \<Rightarrow> error list" where
  "sent_errors runs =
     List.map_filter (\<lambda>run. case snd run of Returned (Some e) \<Rightarrow> Some e | _ \<Rightarrow> None) runs"

text \<open>
  The messages that can reach the \<^verbatim>\<open>select\<close>: what the backend delivers for
  the main container, and the errors sent by the additional containers. Which
  of them is there first is decided outside the program; the runtime's choice
  picks one. With no message at all, the \<^verbatim>\<open>select\<close> never returns. An error
  that an additional container sends only after the teardown has cancelled its
  context comes too late for the \<^verbatim>\<open>select\<close>; the model does not tell such an
  error from an earlier one, so it allows every run of the program and some
  more.
\<close>

definition deliverable :: "wait_delivery \<Rightarrow> error list \<Rightarrow> received list" where
  "deliverable main acErrs =
     (case main of
        OnWaitChan res \<Rightarrow> [From_waitChan res]
      | OnErrChan e \<Rightarrow> [From_errChan e]
      | NoDelivery \<Rightarrow> [])
     @ map From_additionalContainersErrChan acErrs"

definition select_recv :: "received list \<Rightarrow> nat \<Rightarrow> received option" where
  "select_recv ready pick = (if ready = [] then None else Some (ready ! (pick mod length ready)))"

text \<open>
  The deferred function of the orchestrator. It stops after the wait on the
  additional containers when one of their goroutines never returns, and its last
  wait returns only when the log reader was started (the reader is what calls
  \<^verbatim>\<open>logReaderWg.Done()\<close>). The flag tells whether the function returned.
\<close>

definition not_cleaning_up_message :: "string \<Rightarrow> string" where
  "not_cleaning_up_message cont =
     ''not cleaning up container '' @ cont @ '', don't forget to remove it with ''
       @ [CHR 0x22] @ ''docker rm -v '' @ cont @ [CHR 0x22]"

definition teardown ::
  "RunConfig \<Rightarrow> string \<Rightarrow> (event list \<times> outcome) list \<Rightarrow> bool \<Rightarrow> event list \<times> bool" where
  "teardown config cont runs logReaderStarted =
     (let ev1 = [Cancel additionalContainersCtx, Wait additionalContainersWG]
      in if \<exists>run \<in> set runs. snd run = Blocked then (ev1, False)
         else
           (let ev2 =
                  (if NoCleanup config then [Log [] Info (not_cleaning_up_message cont)]
                   else
                     [Log [] Debug (''cleaning up container '' @ cont),
                      Backend (Call_ContainerDelete cont)]
                     @ (case ContainerDelete (ContainerBackend config) cont of
                          None \<Rightarrow> []
                        | Some e \<Rightarrow> [Log [] Warn (''error while removing container: '' @ Error e)]));
                ev3 = [Log [] Debug ''waiting for the container log reader to finish'',
                       Cancel logReaderCtx, Wait logReaderWg]
            in (ev1 @ ev2 @ ev3, logReaderStarted)))"

text \<open>A \<^verbatim>\<open>return\<close> after the deferred function is registered.\<close>

definition return_deferred ::
  "RunConfig \<Rightarrow> string \<Rightarrow> (event list \<times> outcome) list \<Rightarrow> bool \<Rightarrow> event list \<Rightarrow> error option
     \<Rightarrow> event list \<times> outcome" where
  "return_deferred config cont runs logReaderStarted ev ret =
     (case teardown config cont runs logReaderStarted of
        (evs, done) \<Rightarrow> (ev @ evs, if done then Returned ret else Blocked))"

text \<open>
  The orchestrator from the creation of the main container on: the trace of
  its own goroutine and how it ends, the runs of the additional containers'
  goroutines, and the lines that the log reader writes.
\<close>

record created_run =
  cr_trace :: "event list"
  cr_outcome :: outcome
  cr_sidecars :: "(event list \<times> outcome) list"
  cr_log_reader :: "event list"

definition run_created ::
  "Runtime \<Rightarrow> RunConfig \<Rightarrow> AdditionalContainer list \<Rightarrow> string \<Rightarrow> created_run" where
  "run_created rt config additionalContainers cont =
     (let backend = ContainerBackend config;
          runs = map (\<lambda>additionalContainer.
                   runAdditionalContainer rt backend additionalContainer cont (NoCleanup config))
                   additionalContainers;
          ev0 = map (\<lambda>i. Go (Sidecar i)) [0..<length additionalContainers]
                @ [Log [] Debug (''starting container '' @ cont), Backend (Call_ContainerStart cont)]
      in case ContainerStart backend cont of
           Some e \<Rightarrow>
             (case return_deferred config cont runs False ev0 (Some e) of
                (tr, out) \<Rightarrow>
                  \<lparr>cr_trace = tr, cr_outcome = out, cr_sidecars = runs, cr_log_reader = []\<rparr>)
         | None \<Rightarrow>
             (case ContainerLogs backend cont of
                Inl e \<Rightarrow>
                  (case return_deferred config cont runs False
                          (ev0 @ [Backend (Call_ContainerLogs cont)]) (Some e) of
                     (tr, out) \<Rightarrow>
                       \<lparr>cr_trace = tr, cr_outcome = out, cr_sidecars = runs, cr_log_reader = []\<rparr>)
              | Inr logChan \<Rightarrow>
                  (let reader = map (\<lambda>logLine. Log [] Debug (''container: '' @ logLine)) logChan;
                       ev1 = ev0
                         @ [Backend (Call_ContainerLogs cont), Go LogReader,
                            Log [] Debug (''waiting for container '' @ cont @ '' to finish''),
                            Backend (Call_ContainerWait cont)]
                   in case select_recv (deliverable (ContainerWait backend cont) (sent_errors runs))
                             (select_pick rt) of
                        None \<Rightarrow>
                          \<lparr>cr_trace = ev1, cr_outcome = Blocked, cr_sidecars = runs,
                           cr_log_reader = reader\<rparr>
                      | Some (From_waitChan res) \<Rightarrow>
                          (case return_deferred config cont runs True
                                  (ev1 @ [Log [] Debug (''container exited with '' @ wr_Error res
                                     @ '' error and exit code '' @ FormatInt (StatusCode res))]) None of
                             (tr, out) \<Rightarrow>
                               \<lparr>cr_trace = tr, cr_outcome = out, cr_sidecars = runs,
                                cr_log_reader = reader\<rparr>)
                      | Some (From_errChan e) \<Rightarrow>
                          (case return_deferred config cont runs True ev1 e of
                             (tr, out) \<Rightarrow>
                               \<lparr>cr_trace = tr, cr_outcome = out, cr_sidecars = runs,
                                cr_log_reader = reader\<rparr>)
                      | Some (From_additionalContainersErrChan acErr) \<Rightarrow>
                          (case return_deferred config cont runs True ev1 (Some acErr) of
                             (tr, out) \<Rightarrow>
                               \<lparr>cr_trace = tr, cr_outcome = out, cr_sidecars = runs,
                                cr_log_reader = reader\<rparr>))))"

subsection \<open>The orchestrator\<close>

text \<open>
  A run of \<^verbatim>\<open>RunContainerizedAgent\<close>: how it ends, the \<^verbatim>\<open>Params\<close> object and
  the store of additional containers as the caller finds them afterwards, the
  trace of the orchestrator's goroutine, the runs of the additional containers'
  goroutines, and the lines of the log reader.
\<close>

record run =
  outcome :: outcome
  params_after :: Params
  store_after :: store
  trace :: "event list"
  sidecars :: "(event list \<times> outcome) list"
  log_reader :: "event list"

definition RunContainerizedAgent :: "Runtime \<Rightarrow> RunConfig \<Rightarrow> Params \<Rightarrow> store \<Rightarrow> run" where
  "RunContainerizedAgent rt config params s =
     (let backend = ContainerBackend config
      in case SystemInfo backend of
           Inl e \<Rightarrow>
             \<lparr>outcome = Returned (Some e), params_after = params, store_after = s,
              trace = [Backend Call_SystemInfo], sidecars = [], log_reader = []\<rparr>
         | Inr info \<Rightarrow>
             (let availableCPU = float32_of_uint64 (TotalCPUs info);
                  availableMemory = (ucast (TotalMemoryBytes info div mebi) :: 32 word);
                  params1 = params
                    \<lparr>P_CPU := clampCPU (P_CPU params) availableCPU,
                     P_Memory := clampMemory (P_Memory params) availableMemory\<rparr>
              in case clampAdditionalContainers availableCPU availableMemory
                        (P_AdditionalContainers params1) s of
                   (s1, False) \<Rightarrow>
                     \<lparr>outcome = Panicked, params_after = params1, store_after = s1,
                      trace = [Backend Call_SystemInfo], sidecars = [], log_reader = []\<rparr>
                 | (s1, True) \<Rightarrow>
                     (case pullHelper backend (P_Image params1) of
                        (ev0, Some e) \<Rightarrow>
                          \<lparr>outcome = Returned (Some e), params_after = params1, store_after = s1,
                           trace = Backend Call_SystemInfo # ev0, sidecars = [], log_reader = []\<rparr>
                      | (ev0, None) \<Rightarrow>
                          (case those (map s1 (P_AdditionalContainers params1)) of
                             None \<Rightarrow>
                               \<lparr>outcome = Panicked, params_after = params1, store_after = s1,
                                trace = Backend Call_SystemInfo # ev0, sidecars = [], log_reader = []\<rparr>
                           | Some additionalContainers \<Rightarrow>
                               (let input = mainContainerInput rt config params1 additionalContainers;
                                    ev1 = Backend Call_SystemInfo # ev0
                                      @ [Log [] Debug (''creating container using working volume ''
                                           @ P_WorkingVolumeName params1),
                                         Backend (Call_ContainerCreate input)]
                                in case ContainerCreate backend input of
                                     Inl e \<Rightarrow>
                                       \<lparr>outcome = Returned (Some e), params_after = params1,
                                        store_after = s1, trace = ev1, sidecars = [],
                                        log_reader = []\<rparr>
                                   | Inr cont \<Rightarrow>
                                       (let r = run_created rt config additionalContainers cont
                                        in \<lparr>outcome = cr_outcome r, params_after = params1,
                                            store_after = s1, trace = ev1 @ cr_trace r,
                                            sidecars = cr_sidecars r,
                                            log_reader = cr_log_reader r\<rparr>))))))"

section \<open>Agent command of the virtual-machine orchestrator\<close>

text \<open>
  The command that \<^verbatim>\<open>Parallels.Run\<close> builds from the path of the uploaded agent
  and the run configuration, and the two texts that it writes to the standard
  input of the shell: the clock synchronisation, then the command and \<^verbatim>\<open>exit\<close>.
\<close>

definition Parallels_command :: "string \<Rightarrow> RunConfig \<Rightarrow> string list" where
  "Parallels_command remoteAgentPath config =
     [remoteAgentPath,
      ''-api-endpoint'',
      DirectEndpoint config,
      ''-server-token'',
      [CHR 0x22] @ ServerSecret config @ [CHR 0x22],
      ''-client-token'',
      [CHR 0x22] @ ClientSecret config @ [CHR 0x22],
      ''-task-id'',
      FormatInt (TaskID config)]"

definition Parallels_stdin :: "Time \<Rightarrow> string \<Rightarrow> RunConfig \<Rightarrow> string list" where
  "Parallels_stdin now remoteAgentPath config =
     [TimeSyncCommand now,
      Join (Parallels_command remoteAgentPath config) '' '' @ ''\<newline>exit\<newline>'']"

text \<open>
  The argument vector that the interface description gives for the agent: the
  path, then the endpoint, the two tokens and the task identifier, each after
  its flag.
\<close>

definition agent_arguments :: "string \<Rightarrow> string \<Rightarrow> string \<Rightarrow> string \<Rightarrow> 64 word \<Rightarrow> string list" where
  "agent_arguments agentPath url serverToken clientToken taskId =
     [agentPath, ''-api-endpoint'', url, ''-server-token'', serverToken,
      ''-client-token'', clientToken, ''-task-id'', FormatInt taskId]"

definition double_quoted :: "string \<Rightarrow> string" where
  "double_quoted s = [CHR 0x22] @ s @ [CHR 0x22]"

subsection \<open>Reading a trace\<close>

text \<open>The creation inputs that a trace hands to the backend, in order.\<close>

definition created_inputs :: "event list \<Rightarrow> ContainerCreateInput list" where
  "created_inputs evs =
     List.map_filter (\<lambda>ev. case ev of Backend (Call_ContainerCreate input) \<Rightarrow> Some input | _ \<Rightarrow> None) evs"

text \<open>The host-port warnings of a trace.\<close>

definition is_port_warning :: "event \<Rightarrow> bool" where
  "is_port_warning ev =
     (case ev of
        Log scope lvl msg \<Rightarrow> lvl = Warn \<and> HasPrefix msg ''port mappings are unsupported''
      | _ \<Rightarrow> False)"

definition port_warnings :: "event list \<Rightarrow> nat" where
  "port_warnings evs = length (filter is_port_warning evs)"

definition has_host_port :: "AdditionalContainer \<Rightarrow> bool" where
  "has_host_port additionalContainer =
     (\<exists>portMapping \<in> set (ac_Ports additionalContainer). HostPort portMapping \<noteq> 0)"

text \<open>
  The steps of the teardown, as they show in the trace of the orchestrator
  that created the main container \<open>cont\<close>.
\<close>

datatype teardown_step =
    Stop_sidecars
  | Join_sidecars
  | Delete_main string
  | Keep_main string
  | Stop_log_reader
  | Join_log_reader

definition teardown_step_of :: "string \<Rightarrow> event \<Rightarrow> teardown_step option" where
  "teardown_step_of cont ev =
     (case ev of
        Cancel c \<Rightarrow>
          Some (case c of additionalContainersCtx \<Rightarrow> Stop_sidecars | logReaderCtx \<Rightarrow> Stop_log_reader)
      | Wait w \<Rightarrow>
          Some (case w of additionalContainersWG \<Rightarrow> Join_sidecars | logReaderWg \<Rightarrow> Join_log_reader)
      | Backend call \<Rightarrow>
          (case call of Call_ContainerDelete c \<Rightarrow> Some (Delete_main c) | _ \<Rightarrow> None)
      | Log scope lvl msg \<Rightarrow>
          (if scope = [] \<and> lvl = Info \<and> msg = not_cleaning_up_message cont then Some (Keep_main cont)
           else None)
      | _ \<Rightarrow> None)"

definition teardown_steps :: "string \<Rightarrow> event list \<Rightarrow> teardown_step list" where
  "teardown_steps cont evs = List.map_filter (teardown_step_of cont) evs"

section \<open>A worked run\<close>

text \<open>
  A backend with four CPUs and 8 GiB of memory that pulls nothing, creates and
  starts every container, and names a container after its image. The main
  container exits with status 1; the wait on any other container ends with an
  error, as it does when its context is cancelled.
\<close>

definition example_backend :: Backend where
  "example_backend =
     \<lparr>SystemInfo = Inr \<lparr>TotalCPUs = 4, TotalMemoryBytes = 8589934592\<rparr>,
      ShouldPullImage = (\<lambda>reference. False),
      ImagePull = (\<lambda>reference. None),
      ContainerCreate = (\<lambda>input. Inr (''id-'' @ in_Image input)),
      ContainerStart = (\<lambda>cont. None),
      ContainerLogs = (\<lambda>cont. Inr [''hello'']),
      ContainerWait = (\<lambda>cont.
        if cont = ''id-debian'' then OnWaitChan \<lparr>StatusCode = 1, wr_Error = []\<rparr>
        else OnErrChan (Some (ErrorsNew ''context canceled''))),
      ContainerDelete = (\<lambda>cont. None)\<rparr>"

definition example_runtime :: Runtime where
  "example_runtime =
     \<lparr>runtime_GOOS = ''linux'',
      GetCloudBuildIP = [],
      CloudBuildNetworkName = ''cloudbuild'',
      filepath_Dir = (\<lambda>path. path),
      ContainerAgentPath = (\<lambda>p. ''/tmp/cirrus-ci-agent''),
      ContainerAgentVolumeDir = (\<lambda>p. ''/tmp/agent''),
      int64_nano = (\<lambda>x. 0),
      select_pick = 0\<rparr>"

definition example_config :: RunConfig where
  "example_config =
     \<lparr>ContainerEndpoint = ''http://127.0.0.1:8080'',
      DirectEndpoint = ''http://127.0.0.1:8080'',
      ServerSecret = ''server'',
      ClientSecret = ''client'',
      TaskID = 42,
      ProjectDir = ''/project'',
      DirtyMode = False,
      NoCleanup = False,
      ContainerBackend = example_backend\<rparr>"

definition example_params :: Params where
  "example_params =
     \<lparr>P_Image = ''debian'',
      P_CPU = Finite 8,
      P_Memory = 16384,
      P_AdditionalContainers = [1, 2],
      P_CommandFrom = ''build'',
      P_CommandTo = ''test'',
      P_Platform = NewUnix,
      P_AgentVolumeName = ''agent-volume'',
      P_WorkingVolumeName = ''working-volume'',
      P_WorkingDirectory = ''/tmp/working-dir''\<rparr>"

definition example_db :: AdditionalContainer where
  "example_db =
     \<lparr>ac_Name = ''db'', ac_Image = ''postgres'', ac_Command = [], ac_Environment = Map.empty,
      ac_Cpu = Finite 1, ac_Memory = 16384,
      ac_Ports = [\<lparr>ContainerPort = 80, HostPort = 8080\<rparr>, \<lparr>ContainerPort = 443, HostPort = 8443\<rparr>]\<rparr>"

definition example_cache :: AdditionalContainer where
  "example_cache =
     \<lparr>ac_Name = ''cache'', ac_Image = ''redis'', ac_Command = [], ac_Environment = Map.empty,
      ac_Cpu = Finite 16, ac_Memory = 512,
      ac_Ports = [\<lparr>ContainerPort = 8080, HostPort = 8081\<rparr>]\<rparr>"

definition example_store :: store where
  "example_store = [1 \<mapsto> example_db, 2 \<mapsto> example_cache]"

section \<open>Properties of the resource clamp\<close>

lemma clampCPU_is_math_Min: "clampCPU r a = math_Min r a"
  by (simp add: clampCPU_def float32_def float64_def)

lemma math_Min_bounds:
  assumes "f_le (Finite 0) r" and "f_le (Finite 0) a"
  shows "f_le (math_Min r a) r \<and> f_le (math_Min r a) a \<and>
         (math_Min r a = r \<or> math_Min r a = a) \<and>
         (f_le r a \<longrightarrow> f_eq (math_Min r a) r)"
  using assms
  by (cases r; cases a) (auto simp: math_Min_def f_le_def f_lt_def f_eq_def Signbit_def)

lemma clampCPU_idem: "clampCPU (clampCPU r a) a = clampCPU r a"
  by (cases r; cases a)
     (auto simp: clampCPU_is_math_Min math_Min_def f_le_def f_lt_def f_eq_def Signbit_def)

lemma clampMemory_min: "clampMemory m n = min m n"
  by (auto simp: clampMemory_def min_def)

lemma clampMemory_idem: "clampMemory (clampMemory m n) n = clampMemory m n"
  by (simp add: clampMemory_min)

text \<open>
  C5. \<open>clampCPU\<close> is the minimum of the requested and the available quota
  (\<^verbatim>\<open>math.Min\<close>), and \<open>clampMemory\<close> is the requested quota when it is at most
  the available one and the available one otherwise. So for quotas that are at
  least zero, the clamped CPU quota is at most the requested and at most the
  available one, is one of the two, and equals the requested one whenever that
  is at most the available one; the same holds for every memory quota. Both
  are total functions: there is no error result.
\<close>

theorem clamp_is_min_and_bounded:
  "clampCPU r a = math_Min r a \<and>
   (f_le (Finite 0) r \<and> f_le (Finite 0) a \<longrightarrow>
      f_le (clampCPU r a) r \<and> f_le (clampCPU r a) a \<and>
      (clampCPU r a = r \<or> clampCPU r a = a) \<and>
      (f_le r a \<longrightarrow> f_eq (clampCPU r a) r)) \<and>
   clampCPU (Finite p) (Finite q) = Finite (min p q) \<and>
   clampMemory m n = min m n \<and>
   clampMemory m n = (if m \<le> n then m else n) \<and>
   clampMemory m n \<le> m \<and> clampMemory m n \<le> n \<and>
   (m \<le> n \<longrightarrow> clampMemory m n = m)"
proof -
  have fin: "clampCPU (Finite p) (Finite q) = Finite (min p q)"
    by (auto simp: clampCPU_is_math_Min math_Min_def f_lt_def f_eq_def Signbit_def min_def)
  show ?thesis
    using math_Min_bounds [of r a] fin
    by (auto simp: clampCPU_is_math_Min clampMemory_min min_def)
qed

theorem clamp_is_min_and_bounded_witness:
  "f_le (Finite 0) (Finite 4) \<and> f_le (Finite 0) (Finite 2) \<and> f_le (Finite 2) (Finite 4) \<and>
   clampCPU (Finite 4) (Finite 2) = Finite 2 \<and>
   f_eq (clampCPU (Finite 2) (Finite 4)) (Finite 2) \<and>
   clampMemory 8192 4096 = 4096 \<and> clampMemory 512 4096 = 512"
  using clamp_is_min_and_bounded [of "Finite 4" "Finite 2" 4 2 8192 4096]
    clamp_is_min_and_bounded [of "Finite 2" "Finite 4" 2 4 512 4096]
  by (simp add: f_le_def f_lt_def f_eq_def math_Min_def Signbit_def)

section \<open>Properties of the clock synchronisation command\<close>

lemma digit_char_0: "digit_char 0 = CHR ''0''"
  by (simp add: digit_char_def)

lemma is_digit_digit_char: "is_digit (digit_char d)"
  unfolding is_digit_def digit_char_def by (rule nth_mem) simp

lemma digits10_1: "n < 10 \<Longrightarrow> digits10 n = [digit_char n]"
  by (simp add: digits10.simps)

lemma digits10_2:
  "10 \<le> n \<Longrightarrow> n < 100 \<Longrightarrow> digits10 n = [digit_char (n div 10), digit_char (n mod 10)]"
  by (subst digits10.simps) (simp add: digits10_1)

lemma digits10_3:
  "100 \<le> n \<Longrightarrow> n < 1000 \<Longrightarrow>
   digits10 n = [digit_char (n div 100), digit_char (n div 10 mod 10), digit_char (n mod 10)]"
  by (subst digits10.simps) (simp add: digits10_2 div_mult2_eq [symmetric])

lemma digits10_4:
  "1000 \<le> n \<Longrightarrow> n < 10000 \<Longrightarrow>
   digits10 n = [digit_char (n div 1000), digit_char (n div 100 mod 10),
     digit_char (n div 10 mod 10), digit_char (n mod 10)]"
  by (subst digits10.simps) (simp add: digits10_3 div_mult2_eq [symmetric])

lemma replicate_2: "replicate 2 c = [c, c]"
  by (simp add: numeral_2_eq_2)

lemma replicate_3: "replicate 3 c = [c, c, c]"
  by (simp add: numeral_3_eq_3)

lemma appendInt_2: "n < 100 \<Longrightarrow> appendInt (int n) 2 = two_digits n"
  by (cases "n < 10")
     (simp_all add: appendInt_def two_digits_def digits10_1 digits10_2 Let_def digit_char_0)

lemma appendInt_4:
  assumes "n < 10000"
  shows "appendInt (int n) 4 = four_digits n"
proof -
  consider "n < 10" | "10 \<le> n" "n < 100" | "100 \<le> n" "n < 1000" | "1000 \<le> n"
    by linarith
  then show ?thesis
  proof cases
    case 1
    then show ?thesis
      by (simp add: appendInt_def four_digits_def digits10_1 Let_def digit_char_0 replicate_3)
  next
    case 2
    then show ?thesis
      by (simp add: appendInt_def four_digits_def digits10_2 Let_def digit_char_0 replicate_2)
  next
    case 3
    then show ?thesis
      by (simp add: appendInt_def four_digits_def digits10_3 Let_def digit_char_0)
  next
    case 4
    then show ?thesis
      using assms by (simp add: appendInt_def four_digits_def digits10_4 Let_def)
  qed
qed

lemma Format_layout:
  "Format t ''010215042006'' =
     appendInt (int (Month t)) 2 @ appendInt (int (Day t)) 2 @ appendInt (int (Hour t)) 2
     @ appendInt (int (Minute t)) 2 @ appendInt (Year t) 4"
  by simp

text \<open>
  C8, as the code has it. For every UTC time whose year lies between 0 and 9999,
  \<open>TimeSyncCommand\<close> is the text \<^verbatim>\<open>sudo date -u\<close> and a space, then twelve
  decimal digits (two for the month, two for the day, two for the hour, two for
  the minute, four for the year, with no separator) and one newline.
\<close>

theorem TimeSyncCommand_fixed_width:
  assumes "valid_Time t" and "0 \<le> Year t" and "Year t \<le> 9999"
  shows "\<exists>stamp.
     TimeSyncCommand t = ''sudo date -u '' @ stamp @ ''\<newline>'' \<and>
     stamp = two_digits (Month t) @ two_digits (Day t) @ two_digits (Hour t)
       @ two_digits (Minute t) @ four_digits (nat (Year t)) \<and>
     length stamp = 12 \<and> list_all is_digit stamp"
proof -
  from assms have y: "nat (Year t) < 10000" and yy: "int (nat (Year t)) = Year t"
    by simp_all
  have "appendInt (Year t) 4 = four_digits (nat (Year t))"
    using appendInt_4 [OF y] yy by simp
  moreover from assms(1) have "Month t < 100" "Day t < 100" "Hour t < 100" "Minute t < 100"
    by (simp_all add: valid_Time_def)
  ultimately have "Format t ''010215042006'' =
      two_digits (Month t) @ two_digits (Day t) @ two_digits (Hour t)
       @ two_digits (Minute t) @ four_digits (nat (Year t))"
    by (simp only: Format_layout appendInt_2)
  then show ?thesis
    by (simp add: TimeSyncCommand_def two_digits_def four_digits_def is_digit_digit_char)
qed

text \<open>The command for 2024-01-02T03:04:05Z.\<close>

theorem TimeSyncCommand_fixed_width_witness:
  "valid_Time \<lparr>Year = 2024, Month = 1, Day = 2, Hour = 3, Minute = 4, Second = 5\<rparr> \<and>
   TimeSyncCommand \<lparr>Year = 2024, Month = 1, Day = 2, Hour = 3, Minute = 4, Second = 5\<rparr> =
     ''sudo date -u 010203042024\<newline>''"
proof -
  let ?t = "\<lparr>Year = 2024, Month = 1, Day = 2, Hour = 3, Minute = 4, Second = 5\<rparr>"
  have v: "valid_Time ?t"
    by (simp add: valid_Time_def)
  have "0 \<le> Year ?t" and "Year ?t \<le> 9999"
    by simp_all
  with v TimeSyncCommand_fixed_width [of ?t]
  have "TimeSyncCommand ?t = ''sudo date -u '' @ two_digits (Month ?t) @ two_digits (Day ?t)
      @ two_digits (Hour ?t) @ two_digits (Minute ?t) @ four_digits (nat (Year ?t)) @ ''\<newline>''"
    by auto
  then show ?thesis
    using v by (simp add: two_digits_def four_digits_def digit_char_def)
qed

text \<open>
  C8 as stated fails for a year of five digits: at 10000-01-01T00:00:00Z the
  timestamp has thirteen digits.
\<close>

theorem TimeSyncCommand_year_10000_counterexample:
  "valid_Time \<lparr>Year = 10000, Month = 1, Day = 1, Hour = 0, Minute = 0, Second = 0\<rparr> \<and>
   TimeSyncCommand \<lparr>Year = 10000, Month = 1, Day = 1, Hour = 0, Minute = 0, Second = 0\<rparr> =
     ''sudo date -u 0101000010000\<newline>'' \<and>
   \<not> (\<exists>stamp. length stamp = 12 \<and>
        TimeSyncCommand \<lparr>Year = 10000, Month = 1, Day = 1, Hour = 0, Minute = 0, Second = 0\<rparr> =
          ''sudo date -u '' @ stamp @ ''\<newline>'')"
proof -
  let ?t = "\<lparr>Year = 10000, Month = 1, Day = 1, Hour = 0, Minute = 0, Second = 0\<rparr>"
  have c: "TimeSyncCommand ?t = ''sudo date -u 0101000010000\<newline>''"
    by (simp add: TimeSyncCommand_def appendInt_def digits10.simps digit_char_def)
  have "length (TimeSyncCommand ?t) = 27"
    by (subst c) simp
  then have "\<not> (\<exists>stamp. length stamp = 12 \<and>
      TimeSyncCommand ?t = ''sudo date -u '' @ stamp @ ''\<newline>'')"
    by auto
  then show ?thesis
    using c by (simp add: valid_Time_def)
qed

section \<open>Properties of the instance dispatcher\<close>

lemma errors_Is_refl [simp]: "errors_Is e e"
  by (cases e) simp_all

lemma wraps_ErrFailedToCreateInstance [simp]:
  "errors_Is (Errorf_w ErrFailedToCreateInstance suffix) ErrFailedToCreateInstance"
  by (simp add: ErrFailedToCreateInstance_def)

lemma wraps_ErrUnsupportedInstance [simp]:
  "errors_Is (Errorf_w ErrUnsupportedInstance suffix) ErrUnsupportedInstance"
  by (simp add: ErrUnsupportedInstance_def)

lemma lower_char_idem: "lower_char (lower_char c) = lower_char c"
  by (auto simp: lower_char_def is_upper_def)

lemma ToLower_idem: "ToLower (ToLower s) = ToLower s"
  by (simp add: ToLower_def lower_char_idem)

text \<open>
  C3, as the code has it. The dispatcher always returns. It returns an instance
  and a nil error for a container descriptor whose platform is Linux or
  Windows, for a prebuilt-image descriptor, and for a pipe descriptor whose
  stages can be derived from the commands. For a pipe descriptor whose stages
  cannot be derived it returns nil and the error of the derivation, as it is.
  For a persistent-worker descriptor, and for a Docker Builder descriptor whose
  platform is that of the host, it returns what the persistent-worker
  constructor returns. It returns nil and an error that wraps
  \<open>ErrUnsupportedInstance\<close> for any other message, and nil and an error that
  wraps \<open>ErrFailedToCreateInstance\<close> for a nil descriptor, for a descriptor
  that cannot be unmarshalled, for a container descriptor with another
  platform, and for a Docker Builder descriptor of another platform; in these
  cases it has called no function that builds an instance.
\<close>

theorem NewFromProto_outcomes:
  "(case anyInstance of
      None \<Rightarrow>
        d_instance (NewFromProto d anyInstance commands dir) = None \<and>
        (\<exists>e. d_err (NewFromProto d anyInstance commands dir) = Some e \<and>
             errors_Is e ErrFailedToCreateInstance) \<and>
        d_calls (NewFromProto d anyInstance commands dir) = []
    | Some a \<Rightarrow>
        (case UnmarshalAny d a of
           Inl x \<Rightarrow>
             d_instance (NewFromProto d anyInstance commands dir) = None \<and>
             (\<exists>e. d_err (NewFromProto d anyInstance commands dir) = Some e \<and>
                  errors_Is e ErrFailedToCreateInstance) \<and>
             d_calls (NewFromProto d anyInstance commands dir) = []
         | Inr (Msg_ContainerInstance inst) \<Rightarrow>
             (if ci_Platform inst = Platform_LINUX \<or> ci_Platform inst = Platform_WINDOWS then
                (\<exists>i. d_instance (NewFromProto d anyInstance commands dir) = Some (Inst_Container i)) \<and>
                d_err (NewFromProto d anyInstance commands dir) = None
              else
                d_instance (NewFromProto d anyInstance commands dir) = None \<and>
                (\<exists>e. d_err (NewFromProto d anyInstance commands dir) = Some e \<and>
                     errors_Is e ErrFailedToCreateInstance) \<and>
                d_calls (NewFromProto d anyInstance commands dir) = [])
         | Inr (Msg_PipeInstance inst) \<Rightarrow>
             (case snd (PipeStagesFromCommands d commands) of
                None \<Rightarrow>
                  (\<exists>i. d_instance (NewFromProto d anyInstance commands dir) = Some (Inst_Pipe i)) \<and>
                  d_err (NewFromProto d anyInstance commands dir) = None
              | Some e \<Rightarrow>
                  d_instance (NewFromProto d anyInstance commands dir) = None \<and>
                  d_err (NewFromProto d anyInstance commands dir) = Some e)
         | Inr (Msg_PrebuiltImageInstance inst) \<Rightarrow>
             (\<exists>i. d_instance (NewFromProto d anyInstance commands dir) = Some (Inst_Prebuilt i)) \<and>
             d_err (NewFromProto d anyInstance commands dir) = None
         | Inr (Msg_PersistentWorkerInstance isolation) \<Rightarrow>
             (d_instance (NewFromProto d anyInstance commands dir),
              d_err (NewFromProto d anyInstance commands dir)) = persistentworker_New d isolation
         | Inr (Msg_DockerBuilder inst) \<Rightarrow>
             (if GOOS d = ToLower (Platform_String (db_Platform inst)) then
                (d_instance (NewFromProto d anyInstance commands dir),
                 d_err (NewFromProto d anyInstance commands dir)) =
                  persistentworker_New d (Some Isolation_None)
              else
                d_instance (NewFromProto d anyInstance commands dir) = None \<and>
                (\<exists>e. d_err (NewFromProto d anyInstance commands dir) = Some e \<and>
                     errors_Is e ErrFailedToCreateInstance) \<and>
                d_calls (NewFromProto d anyInstance commands dir) = [])
         | Inr (Msg_other typ) \<Rightarrow>
             d_instance (NewFromProto d anyInstance commands dir) = None \<and>
             (\<exists>e. d_err (NewFromProto d anyInstance commands dir) = Some e \<and>
                  errors_Is e ErrUnsupportedInstance) \<and>
             d_calls (NewFromProto d anyInstance commands dir) = []))"
  by (auto simp: NewFromProto_def Let_def
      split: option.splits sum.splits Message.splits Platform.splits prod.splits)

text \<open>A Linux container descriptor is dispatched to a container instance.\<close>

theorem NewFromProto_outcomes_witness:
  "d_instance (NewFromProto
      \<lparr>GOOS = ''linux'',
       UnmarshalAny = (\<lambda>a. Inr (Msg_ContainerInstance
         \<lparr>ci_Image = ''debian:latest'', ci_Cpu = Finite 2, ci_Memory = 4096,
          ci_AdditionalContainers = [], ci_Platform = Platform_LINUX, ci_OsVersion = []\<rparr>)),
       path_Join = (\<lambda>a b. a @ ''/'' @ b),
       PipeStagesFromCommands = (\<lambda>cs. ([], None)),
       persistentworker_New = (\<lambda>iso. (Some (Inst_Worker ''none''), None))\<rparr>
      (Some \<lparr>TypeUrl = ''ContainerInstance'', Value = []\<rparr>) [] ''/tmp/work'') =
     Some (Inst_Container
       \<lparr>CI_Image = ''debian:latest'', CI_CPU = Finite 2, CI_Memory = 4096,
        CI_AdditionalContainers = [], CI_Platform = NewUnix, CI_CustomWorkingDir = ''/tmp/work''\<rparr>)"
  using NewFromProto_outcomes [where anyInstance = "Some \<lparr>TypeUrl = ''ContainerInstance'', Value = []\<rparr>"
      and d = "\<lparr>GOOS = ''linux'',
       UnmarshalAny = (\<lambda>a. Inr (Msg_ContainerInstance
         \<lparr>ci_Image = ''debian:latest'', ci_Cpu = Finite 2, ci_Memory = 4096,
          ci_AdditionalContainers = [], ci_Platform = Platform_LINUX, ci_OsVersion = []\<rparr>)),
       path_Join = (\<lambda>a b. a @ ''/'' @ b),
       PipeStagesFromCommands = (\<lambda>cs. ([], None)),
       persistentworker_New = (\<lambda>iso. (Some (Inst_Worker ''none''), None))\<rparr>"
      and commands = "[]" and dir = "''/tmp/work''"]
  by (simp add: NewFromProto_def)

text \<open>
  C3 as stated fails for a pipe descriptor, a known variant with no platform
  constraint: when the stages cannot be derived from the commands, the
  dispatcher returns nil and the error of the derivation, which wraps neither
  of the two dispatch errors.
\<close>

theorem NewFromProto_pipe_counterexample:
  "d_instance (NewFromProto
      \<lparr>GOOS = ''linux'',
       UnmarshalAny = (\<lambda>a. Inr (Msg_PipeInstance \<lparr>pi_Cpu = Finite 1, pi_Memory = 1024\<rparr>)),
       path_Join = (\<lambda>a b. a @ ''/'' @ b),
       PipeStagesFromCommands = (\<lambda>cs. ([], Some (ErrorsNew ''failed to create pipe instance''))),
       persistentworker_New = (\<lambda>iso. (Some (Inst_Worker ''none''), None))\<rparr>
      (Some \<lparr>TypeUrl = ''PipeInstance'', Value = []\<rparr>) [''main''] []) = None \<and>
   d_err (NewFromProto
      \<lparr>GOOS = ''linux'',
       UnmarshalAny = (\<lambda>a. Inr (Msg_PipeInstance \<lparr>pi_Cpu = Finite 1, pi_Memory = 1024\<rparr>)),
       path_Join = (\<lambda>a b. a @ ''/'' @ b),
       PipeStagesFromCommands = (\<lambda>cs. ([], Some (ErrorsNew ''failed to create pipe instance''))),
       persistentworker_New = (\<lambda>iso. (Some (Inst_Worker ''none''), None))\<rparr>
      (Some \<lparr>TypeUrl = ''PipeInstance'', Value = []\<rparr>) [''main''] []) =
     Some (ErrorsNew ''failed to create pipe instance'') \<and>
   \<not> errors_Is (ErrorsNew ''failed to create pipe instance'') ErrFailedToCreateInstance \<and>
   \<not> errors_Is (ErrorsNew ''failed to create pipe instance'') ErrUnsupportedInstance"
  by (simp add: NewFromProto_def ErrFailedToCreateInstance_def ErrUnsupportedInstance_def)

text \<open>
  C4, as the code has it. For every Docker Builder descriptor whose platform
  is not the host's operating system, compared without regard to letter case,
  the dispatcher returns nil and an error that wraps
  \<open>ErrFailedToCreateInstance\<close>, and has called no function that builds an
  instance. For a persistent-worker descriptor the dispatcher makes no such
  check: whatever the host's operating system, it returns what the
  persistent-worker constructor returns for the isolation of the descriptor.
\<close>

theorem NewFromProto_os_check:
  "(UnmarshalAny d a = Inr (Msg_DockerBuilder inst) \<and>
    \<not> EqualFold (Platform_String (db_Platform inst)) (GOOS d) \<longrightarrow>
      d_instance (NewFromProto d (Some a) commands dir) = None \<and>
      (\<exists>e. d_err (NewFromProto d (Some a) commands dir) = Some e \<and>
           errors_Is e ErrFailedToCreateInstance) \<and>
      d_calls (NewFromProto d (Some a) commands dir) = []) \<and>
   (UnmarshalAny d a = Inr (Msg_PersistentWorkerInstance isolation) \<longrightarrow>
      NewFromProto (d\<lparr>GOOS := os\<rparr>) (Some a) commands dir =
        \<lparr>d_instance = fst (persistentworker_New d isolation),
         d_err = snd (persistentworker_New d isolation),
         d_calls = [Call_persistentworker_New isolation]\<rparr>)"
  by (auto simp: NewFromProto_def Let_def EqualFold_def ToLower_idem)

theorem NewFromProto_os_check_witness:
  "\<not> EqualFold (Platform_String Platform_WINDOWS) ''linux'' \<and>
   d_instance (NewFromProto
      \<lparr>GOOS = ''linux'',
       UnmarshalAny = (\<lambda>a. Inr (Msg_DockerBuilder \<lparr>db_Platform = Platform_WINDOWS, db_OsVersion = ''2019''\<rparr>)),
       path_Join = (\<lambda>a b. a @ ''/'' @ b),
       PipeStagesFromCommands = (\<lambda>cs. ([], None)),
       persistentworker_New = (\<lambda>iso. (Some (Inst_Worker ''none''), None))\<rparr>
      (Some \<lparr>TypeUrl = ''DockerBuilder'', Value = []\<rparr>) [] []) = None \<and>
   d_err (NewFromProto
      \<lparr>GOOS = ''linux'',
       UnmarshalAny = (\<lambda>a. Inr (Msg_DockerBuilder \<lparr>db_Platform = Platform_WINDOWS, db_OsVersion = ''2019''\<rparr>)),
       path_Join = (\<lambda>a b. a @ ''/'' @ b),
       PipeStagesFromCommands = (\<lambda>cs. ([], None)),
       persistentworker_New = (\<lambda>iso. (Some (Inst_Worker ''none''), None))\<rparr>
      (Some \<lparr>TypeUrl = ''DockerBuilder'', Value = []\<rparr>) [] []) \<noteq> None \<and>
   NewFromProto
      \<lparr>GOOS = ''windows'',
       UnmarshalAny = (\<lambda>a. Inr (Msg_PersistentWorkerInstance (Some Isolation_None))),
       path_Join = (\<lambda>a b. a @ ''/'' @ b),
       PipeStagesFromCommands = (\<lambda>cs. ([], None)),
       persistentworker_New = (\<lambda>iso. (Some (Inst_Worker ''none''), None))\<rparr>
      (Some \<lparr>TypeUrl = ''PersistentWorkerInstance'', Value = []\<rparr>) [] [] =
     \<lparr>d_instance = Some (Inst_Worker ''none''), d_err = None,
      d_calls = [Call_persistentworker_New (Some Isolation_None)]\<rparr>"
proof -
  let ?d = "\<lparr>GOOS = ''linux'',
       UnmarshalAny = (\<lambda>a. Inr (Msg_DockerBuilder \<lparr>db_Platform = Platform_WINDOWS, db_OsVersion = ''2019''\<rparr>)),
       path_Join = (\<lambda>a b. a @ ''/'' @ b),
       PipeStagesFromCommands = (\<lambda>cs. ([], None)),
       persistentworker_New = (\<lambda>iso. (Some (Inst_Worker ''none''), None))\<rparr>"
  let ?w = "\<lparr>GOOS = ''linux'',
       UnmarshalAny = (\<lambda>a. Inr (Msg_PersistentWorkerInstance (Some Isolation_None))),
       path_Join = (\<lambda>a b. a @ ''/'' @ b),
       PipeStagesFromCommands = (\<lambda>cs. ([], None)),
       persistentworker_New = (\<lambda>iso. (Some (Inst_Worker ''none''), None))\<rparr>"
  have ne: "\<not> EqualFold (Platform_String Platform_WINDOWS) ''linux''"
    by (simp add: EqualFold_def ToLower_def)
  have a: "d_instance (NewFromProto ?d (Some \<lparr>TypeUrl = ''DockerBuilder'', Value = []\<rparr>) [] []) = None \<and>
      d_err (NewFromProto ?d (Some \<lparr>TypeUrl = ''DockerBuilder'', Value = []\<rparr>) [] []) \<noteq> None"
    using ne NewFromProto_os_check [where d = ?d and a = "\<lparr>TypeUrl = ''DockerBuilder'', Value = []\<rparr>"
        and inst = "\<lparr>db_Platform = Platform_WINDOWS, db_OsVersion = ''2019''\<rparr>"
        and commands = "[]" and dir = "[]"]
    by auto
  have b: "NewFromProto (?w\<lparr>GOOS := ''windows''\<rparr>)
      (Some \<lparr>TypeUrl = ''PersistentWorkerInstance'', Value = []\<rparr>) [] [] =
     \<lparr>d_instance = Some (Inst_Worker ''none''), d_err = None,
      d_calls = [Call_persistentworker_New (Some Isolation_None)]\<rparr>"
    using NewFromProto_os_check [where d = ?w
        and a = "\<lparr>TypeUrl = ''PersistentWorkerInstance'', Value = []\<rparr>"
        and isolation = "Some Isolation_None" and os = "''windows''"
        and commands = "[]" and dir = "[]"]
    by simp
  from ne a b show ?thesis
    by simp
qed

text \<open>
  C4 as stated fails for a persistent worker: on a Linux host, a descriptor
  whose isolation names a macOS guest is dispatched to the persistent-worker
  constructor, and its instance is returned with a nil error.
\<close>

theorem NewFromProto_persistent_worker_counterexample:
  "requiredOS (Msg_PersistentWorkerInstance
      (Some (Isolation_Parallels ''big-sur'' ''admin'' ''admin'' (Platform_other ''DARWIN'')))) =
     Some (Platform_other ''DARWIN'') \<and>
   \<not> EqualFold (Platform_String (Platform_other ''DARWIN'')) ''linux'' \<and>
   NewFromProto
      \<lparr>GOOS = ''linux'',
       UnmarshalAny = (\<lambda>a. Inr (Msg_PersistentWorkerInstance
         (Some (Isolation_Parallels ''big-sur'' ''admin'' ''admin'' (Platform_other ''DARWIN''))))),
       path_Join = (\<lambda>a b. a @ ''/'' @ b),
       PipeStagesFromCommands = (\<lambda>cs. ([], None)),
       persistentworker_New = (\<lambda>iso. (Some (Inst_Worker ''parallels''), None))\<rparr>
      (Some \<lparr>TypeUrl = ''PersistentWorkerInstance'', Value = []\<rparr>) [] [] =
     \<lparr>d_instance = Some (Inst_Worker ''parallels''), d_err = None,
      d_calls = [Call_persistentworker_New
        (Some (Isolation_Parallels ''big-sur'' ''admin'' ''admin'' (Platform_other ''DARWIN'')))]\<rparr>"
  by (simp add: NewFromProto_def EqualFold_def ToLower_def)

section \<open>Properties of the container orchestrator\<close>

subsection \<open>The clamp loop\<close>

lemma clampAdditionalContainer_idem:
  "clampAdditionalContainer c m (clampAdditionalContainer c m ac) = clampAdditionalContainer c m ac"
  by (simp add: clampAdditionalContainer_def clampCPU_idem clampMemory_idem)

lemma clampAdditionalContainers_store:
  "clampAdditionalContainers c m ps s = (s1, ok) \<Longrightarrow> set ps \<subseteq> dom s \<Longrightarrow>
     ok \<and> (\<forall>p. s1 p = (if p \<in> set ps then map_option (clampAdditionalContainer c m) (s p) else s p))"
proof (induction ps arbitrary: s)
  case Nil
  then show ?case by simp
next
  case (Cons p ps)
  from Cons.prems(2) obtain ac where ac: "s p = Some ac"
    by auto
  let ?s = "s(p \<mapsto> clampAdditionalContainer c m ac)"
  from Cons.prems(1) ac have run: "clampAdditionalContainers c m ps ?s = (s1, ok)"
    by simp
  from Cons.prems(2) have "set ps \<subseteq> dom ?s"
    by auto
  from Cons.IH [OF run this]
  have ih: "ok" "\<And>q. s1 q = (if q \<in> set ps then map_option (clampAdditionalContainer c m) (?s q) else ?s q)"
    by simp_all
  show ?case
    using ih ac by (auto simp: clampAdditionalContainer_idem)
qed

lemma clampAdditionalContainers_ok_dom:
  "clampAdditionalContainers c m ps s = (s1, True) \<Longrightarrow> set ps \<subseteq> dom s"
proof (induction ps arbitrary: s)
  case Nil
  then show ?case by simp
next
  case (Cons p ps)
  show ?case
  proof (cases "s p")
    case None
    with Cons.prems show ?thesis by simp
  next
    case (Some ac)
    with Cons.prems have "clampAdditionalContainers c m ps (s(p \<mapsto> clampAdditionalContainer c m ac)) = (s1, True)"
      by simp
    from Cons.IH [OF this] Some show ?thesis
      by (auto split: if_splits)
  qed
qed

lemma those_map_Some:
  "(\<And>x. x \<in> set xs \<Longrightarrow> f x = Some (g x)) \<Longrightarrow> those (map f xs) = Some (map g xs)"
  by (induction xs) simp_all

lemma clampAdditionalContainers_those:
  assumes "clampAdditionalContainers c m ps s = (s1, True)"
  shows "those (map s ps) = Some (map (\<lambda>p. the (s p)) ps) \<and>
         those (map s1 ps) = Some (map (\<lambda>p. clampAdditionalContainer c m (the (s p))) ps)"
proof -
  from assms have d: "set ps \<subseteq> dom s"
    by (rule clampAdditionalContainers_ok_dom)
  from clampAdditionalContainers_store [OF assms d]
  have st: "\<And>p. p \<in> set ps \<Longrightarrow> s1 p = map_option (clampAdditionalContainer c m) (s p)"
    by simp
  have a: "those (map s ps) = Some (map (\<lambda>p. the (s p)) ps)"
    using d by (intro those_map_Some) auto
  have b: "those (map s1 ps) = Some (map (\<lambda>p. clampAdditionalContainer c m (the (s p))) ps)"
    using d st by (intro those_map_Some) auto
  from a b show ?thesis ..
qed

subsection \<open>The shape of a run\<close>

lemma pullHelper_events:
  "fst (pullHelper backend reference) = [] \<or>
   (\<exists>e. fst (pullHelper backend reference) =
      [Log ''image pull'' Info (''Pulling image '' @ reference @ ''...''),
       Backend (Call_ImagePull reference),
       Log ''image pull'' Failure (''Failed to pull '' @ reference @ '': '' @ Error e),
       Finish ''image pull'' False]) \<or>
   fst (pullHelper backend reference) =
      [Log ''image pull'' Info (''Pulling image '' @ reference @ ''...''),
       Backend (Call_ImagePull reference),
       Finish ''image pull'' True]"
  by (auto simp: pullHelper_def split: option.splits)

lemma pullHelper_error:
  "snd (pullHelper backend reference) = Some e \<Longrightarrow> errors_Is e ErrAdditionalContainerFailed"
  by (auto simp: pullHelper_def Errorf_w_v_def ErrAdditionalContainerFailed_def
      split: if_splits option.splits)

text \<open>The ways in which a run of the orchestrator can go, up to the creation of the main container.\<close>

lemma RunContainerizedAgent_cases:
  fixes rt config params s
  defines "R \<equiv> RunContainerizedAgent rt config params s"
  obtains
    (no_info) e where
      "SystemInfo (ContainerBackend config) = Inl e"
      "R = \<lparr>outcome = Returned (Some e), params_after = params, store_after = s,
            trace = [Backend Call_SystemInfo], sidecars = [], log_reader = []\<rparr>"
  | (nil_pointer) info where
      "SystemInfo (ContainerBackend config) = Inr info"
      "\<not> set (P_AdditionalContainers params) \<subseteq> dom s"
      "outcome R = Panicked" "trace R = [Backend Call_SystemInfo]" "sidecars R = []"
  | (no_image) info s1 e where
      "SystemInfo (ContainerBackend config) = Inr info"
      "clampAdditionalContainers (float32_of_uint64 (TotalCPUs info))
         (ucast (TotalMemoryBytes info div mebi)) (P_AdditionalContainers params) s = (s1, True)"
      "snd (pullHelper (ContainerBackend config) (P_Image params)) = Some e"
      "outcome R = Returned (Some e)" "store_after R = s1"
      "trace R = Backend Call_SystemInfo # fst (pullHelper (ContainerBackend config) (P_Image params))"
      "sidecars R = []"
  | (not_created) info s1 params1 acs e where
      "SystemInfo (ContainerBackend config) = Inr info"
      "clampAdditionalContainers (float32_of_uint64 (TotalCPUs info))
         (ucast (TotalMemoryBytes info div mebi)) (P_AdditionalContainers params) s = (s1, True)"
      "params1 = params
         \<lparr>P_CPU := clampCPU (P_CPU params) (float32_of_uint64 (TotalCPUs info)),
          P_Memory := clampMemory (P_Memory params) (ucast (TotalMemoryBytes info div mebi))\<rparr>"
      "those (map s1 (P_AdditionalContainers params)) = Some acs"
      "snd (pullHelper (ContainerBackend config) (P_Image params)) = None"
      "ContainerCreate (ContainerBackend config) (mainContainerInput rt config params1 acs) = Inl e"
      "outcome R = Returned (Some e)" "store_after R = s1"
      "trace R = Backend Call_SystemInfo # fst (pullHelper (ContainerBackend config) (P_Image params))
         @ [Log [] Debug (''creating container using working volume '' @ P_WorkingVolumeName params),
            Backend (Call_ContainerCreate (mainContainerInput rt config params1 acs))]"
      "sidecars R = []"
  | (created) info s1 params1 acs cont where
      "SystemInfo (ContainerBackend config) = Inr info"
      "clampAdditionalContainers (float32_of_uint64 (TotalCPUs info))
         (ucast (TotalMemoryBytes info div mebi)) (P_AdditionalContainers params) s = (s1, True)"
      "params1 = params
         \<lparr>P_CPU := clampCPU (P_CPU params) (float32_of_uint64 (TotalCPUs info)),
          P_Memory := clampMemory (P_Memory params) (ucast (TotalMemoryBytes info div mebi))\<rparr>"
      "those (map s1 (P_AdditionalContainers params)) = Some acs"
      "snd (pullHelper (ContainerBackend config) (P_Image params)) = None"
      "ContainerCreate (ContainerBackend config) (mainContainerInput rt config params1 acs) = Inr cont"
      "outcome R = cr_outcome (run_created rt config acs cont)" "store_after R = s1"
      "trace R = Backend Call_SystemInfo # fst (pullHelper (ContainerBackend config) (P_Image params))
         @ [Log [] Debug (''creating container using working volume '' @ P_WorkingVolumeName params),
            Backend (Call_ContainerCreate (mainContainerInput rt config params1 acs))]
         @ cr_trace (run_created rt config acs cont)"
      "sidecars R = cr_sidecars (run_created rt config acs cont)"
      "log_reader R = cr_log_reader (run_created rt config acs cont)"
proof (cases "SystemInfo (ContainerBackend config)")
  case (Inl e)
  then show ?thesis
    using no_info [of e] by (simp add: R_def RunContainerizedAgent_def)
next
  case (Inr info)
  let ?cpu = "float32_of_uint64 (TotalCPUs info)"
  let ?mem = "ucast (TotalMemoryBytes info div mebi) :: 32 word"
  let ?p1 = "params\<lparr>P_CPU := clampCPU (P_CPU params) ?cpu, P_Memory := clampMemory (P_Memory params) ?mem\<rparr>"
  obtain s1 ok where cl: "clampAdditionalContainers ?cpu ?mem (P_AdditionalContainers params) s = (s1, ok)"
    by (cases "clampAdditionalContainers ?cpu ?mem (P_AdditionalContainers params) s")
  show ?thesis
  proof (cases ok)
    case False
    with cl have "\<not> set (P_AdditionalContainers params) \<subseteq> dom s"
      using clampAdditionalContainers_store [OF cl] by auto
    then show ?thesis
      using nil_pointer [of info] Inr cl False
      by (simp add: R_def RunContainerizedAgent_def Let_def)
  next
    case True
    with cl have cl: "clampAdditionalContainers ?cpu ?mem (P_AdditionalContainers params) s = (s1, True)"
      by simp
    obtain ev0 pe where ph: "pullHelper (ContainerBackend config) (P_Image params) = (ev0, pe)"
      by (cases "pullHelper (ContainerBackend config) (P_Image params)")
    show ?thesis
    proof (cases pe)
      case (Some e)
      then show ?thesis
        using no_image [of info s1 e] Inr cl ph
        by (simp add: R_def RunContainerizedAgent_def Let_def)
    next
      case None
      from clampAdditionalContainers_those [OF cl]
      obtain acs where acs: "those (map s1 (P_AdditionalContainers params)) = Some acs"
        by blast
      show ?thesis
      proof (cases "ContainerCreate (ContainerBackend config) (mainContainerInput rt config ?p1 acs)")
        case (Inl e)
        then show ?thesis
          using not_created [of info s1 ?p1 acs e] Inr cl ph None acs
          by (simp add: R_def RunContainerizedAgent_def Let_def)
      next
        case cr: (Inr cont)
        then show ?thesis
          using created [of info s1 ?p1 acs cont] Inr cl ph None acs
          by (simp add: R_def RunContainerizedAgent_def Let_def)
      qed
    qed
  qed
qed

subsection \<open>The creation input of the main container\<close>

lemma Entrypoint_mainContainerInput:
  "Entrypoint (mainContainerInput rt config params acs) =
     [ContainerAgentPath rt (P_Platform params), ''-api-endpoint'', ContainerEndpoint config,
      ''-server-token'', ServerSecret config, ''-client-token'', ClientSecret config,
      ''-task-id'', FormatInt (TaskID config),
      ''-command-from'', P_CommandFrom params, ''-command-to'', P_CommandTo params]"
  by (simp add: mainContainerInput_def Let_def)

lemma Env_mainContainerInput:
  "Env (mainContainerInput rt config params acs) =
     (if acs = [] then Map.empty
      else [''CIRRUS_PORTS_WAIT_FOR'' \<mapsto> Join (wait_for_ports acs) '',''])"
  by (simp add: mainContainerInput_def Let_def)

lemma created_inputs_append [simp]:
  "created_inputs (xs @ ys) = created_inputs xs @ created_inputs ys"
  by (simp add: created_inputs_def map_filter_def)

lemma created_inputs_Cons:
  "created_inputs (ev # evs) =
     (case ev of
        Backend call \<Rightarrow> (case call of Call_ContainerCreate input \<Rightarrow> input # created_inputs evs
                         | _ \<Rightarrow> created_inputs evs)
      | _ \<Rightarrow> created_inputs evs)"
  by (simp add: created_inputs_def map_filter_simps split: event.splits backend_call.splits)

lemma created_inputs_Nil [simp]: "created_inputs [] = []"
  by (simp add: created_inputs_def map_filter_simps)

lemma created_inputs_pullHelper [simp]: "created_inputs (fst (pullHelper backend reference)) = []"
  using pullHelper_events [of backend reference]
  by (auto simp: created_inputs_Cons)

lemma created_inputs_map_Go [simp]: "created_inputs (map (\<lambda>i. Go (f i)) xs) = []"
  by (induction xs) (simp_all add: created_inputs_Cons)

lemma created_inputs_teardown [simp]: "created_inputs (fst (teardown config cont runs started)) = []"
  by (simp add: teardown_def Let_def created_inputs_Cons split: option.splits)

lemma created_inputs_return_deferred [simp]:
  "created_inputs (fst (return_deferred config cont runs started ev ret)) = created_inputs ev"
  by (simp add: return_deferred_def split: prod.splits)
     (metis created_inputs_teardown fst_conv)

lemma cr_trace_return_deferred:
  "cr_trace (case return_deferred config cont runs started ev ret of
      (tr, out) \<Rightarrow> \<lparr>cr_trace = tr, cr_outcome = out, cr_sidecars = sc, cr_log_reader = lr\<rparr>) =
     fst (return_deferred config cont runs started ev ret)"
  by (simp split: prod.splits)

lemma created_inputs_run_created [simp]:
  "created_inputs (cr_trace (run_created rt config acs cont)) = []"
  by (simp add: run_created_def Let_def cr_trace_return_deferred created_inputs_Cons
      split: option.splits sum.splits received.splits)

lemma created_inputs_RunContainerizedAgent:
  "input \<in> set (created_inputs (trace (RunContainerizedAgent rt config params s))) \<Longrightarrow>
   \<exists>info acs.
     SystemInfo (ContainerBackend config) = Inr info \<and>
     those (map s (P_AdditionalContainers params)) = Some acs \<and>
     input = mainContainerInput rt config
       (params\<lparr>P_CPU := clampCPU (P_CPU params) (float32_of_uint64 (TotalCPUs info)),
               P_Memory := clampMemory (P_Memory params) (ucast (TotalMemoryBytes info div mebi))\<rparr>)
       (map (clampAdditionalContainer (float32_of_uint64 (TotalCPUs info))
              (ucast (TotalMemoryBytes info div mebi))) acs)"
proof (cases rule: RunContainerizedAgent_cases [of config rt params s])
  case (no_info e)
  assume "input \<in> set (created_inputs (trace (RunContainerizedAgent rt config params s)))"
  with no_info show ?thesis
    by (simp add: created_inputs_Cons)
next
  case (nil_pointer info)
  assume "input \<in> set (created_inputs (trace (RunContainerizedAgent rt config params s)))"
  with nil_pointer show ?thesis
    by (simp add: created_inputs_Cons)
next
  case (no_image info s1 e)
  assume "input \<in> set (created_inputs (trace (RunContainerizedAgent rt config params s)))"
  with no_image show ?thesis
    by (simp add: created_inputs_Cons)
next
  case (not_created info s1 params1 acs e)
  assume "input \<in> set (created_inputs (trace (RunContainerizedAgent rt config params s)))"
  with not_created have "input = mainContainerInput rt config params1 acs"
    by (simp add: created_inputs_Cons)
  with not_created clampAdditionalContainers_those [OF not_created(2)] show ?thesis
    by (auto simp: o_def)
next
  case (created info s1 params1 acs cont)
  assume "input \<in> set (created_inputs (trace (RunContainerizedAgent rt config params s)))"
  with created have "input = mainContainerInput rt config params1 acs"
    by (simp add: created_inputs_Cons)
  with created clampAdditionalContainers_those [OF created(2)] show ?thesis
    by (auto simp: o_def)
qed

lemma unat_ucast_32_64: "unat (ucast (w :: 32 word) :: 64 word) = unat w"
proof -
  have "unat w < 2 ^ 32"
    using unsigned_less [of w, where 'a = nat] by simp
  then have "unat w < 2 ^ 64"
    by simp
  then show ?thesis
    by (simp add: unsigned_ucast_eq take_bit_nat_eq_self)
qed

lemma wait_for_ports_clamped:
  "wait_for_ports (map (clampAdditionalContainer c m) acs) =
     concat (map (\<lambda>ac. map (\<lambda>pm. digits10 (unat (ContainerPort pm))) (ac_Ports ac)) acs)"
  by (simp add: wait_for_ports_def clampAdditionalContainer_def FormatUint_def unat_ucast_32_64 o_def)

text \<open>
  C9. The entrypoint of the main container is the agent path, then the
  endpoint, the server token, the client token and the task identifier, each
  after its flag, and then the two command bounds after theirs; this is the
  entrypoint of every creation input that a run hands to the backend. The
  command of the virtual-machine orchestrator is the same vector without the
  command bounds, in which the two tokens, and nothing else, stand in double
  quotes.
\<close>

theorem agent_argument_vectors:
  "Entrypoint (mainContainerInput rt config params acs) =
     agent_arguments (ContainerAgentPath rt (P_Platform params)) (ContainerEndpoint config)
       (ServerSecret config) (ClientSecret config) (TaskID config)
     @ [''-command-from'', P_CommandFrom params, ''-command-to'', P_CommandTo params] \<and>
   (\<forall>input \<in> set (created_inputs (trace (RunContainerizedAgent rt config params s))).
      Entrypoint input =
        agent_arguments (ContainerAgentPath rt (P_Platform params)) (ContainerEndpoint config)
          (ServerSecret config) (ClientSecret config) (TaskID config)
        @ [''-command-from'', P_CommandFrom params, ''-command-to'', P_CommandTo params]) \<and>
   Parallels_command remoteAgentPath config =
     (agent_arguments remoteAgentPath (DirectEndpoint config)
        (ServerSecret config) (ClientSecret config) (TaskID config))
     [4 := double_quoted (ServerSecret config), 6 := double_quoted (ClientSecret config)] \<and>
   Parallels_stdin now remoteAgentPath config ! 1 =
     Join (Parallels_command remoteAgentPath config) '' '' @ ''\<newline>exit\<newline>''"
proof -
  have a: "Entrypoint (mainContainerInput rt config p acs') =
     agent_arguments (ContainerAgentPath rt (P_Platform p)) (ContainerEndpoint config)
       (ServerSecret config) (ClientSecret config) (TaskID config)
     @ [''-command-from'', P_CommandFrom p, ''-command-to'', P_CommandTo p]" for p acs'
    by (simp add: Entrypoint_mainContainerInput agent_arguments_def)
  have b: "Entrypoint input =
        agent_arguments (ContainerAgentPath rt (P_Platform params)) (ContainerEndpoint config)
          (ServerSecret config) (ClientSecret config) (TaskID config)
        @ [''-command-from'', P_CommandFrom params, ''-command-to'', P_CommandTo params]"
    if "input \<in> set (created_inputs (trace (RunContainerizedAgent rt config params s)))" for input
    using created_inputs_RunContainerizedAgent [OF that] by (auto simp: a)
  have c: "Parallels_command remoteAgentPath config =
     (agent_arguments remoteAgentPath (DirectEndpoint config)
        (ServerSecret config) (ClientSecret config) (TaskID config))
     [4 := double_quoted (ServerSecret config), 6 := double_quoted (ClientSecret config)]"
    by (simp add: Parallels_command_def agent_arguments_def double_quoted_def)
  have d: "Parallels_stdin now remoteAgentPath config ! 1 =
     Join (Parallels_command remoteAgentPath config) '' '' @ ''\<newline>exit\<newline>''"
    by (simp add: Parallels_stdin_def)
  from a b c d show ?thesis
    by blast
qed

text \<open>
  C7. In every creation input that a run hands to the backend for the main
  container, the environment holds \<^verbatim>\<open>CIRRUS_PORTS_WAIT_FOR\<close> exactly when
  the parameters declare an additional container, and holds nothing else; its
  value is the decimal container ports of the additional containers, in the
  order of their declaration, joined by commas.
\<close>

theorem CIRRUS_PORTS_WAIT_FOR_set:
  assumes "input \<in> set (created_inputs (trace (RunContainerizedAgent rt config params s)))"
  shows "\<exists>acs. those (map s (P_AdditionalContainers params)) = Some acs \<and>
     Env input =
       (if P_AdditionalContainers params = [] then Map.empty
        else [''CIRRUS_PORTS_WAIT_FOR'' \<mapsto>
          Join (concat (map (\<lambda>ac. map (\<lambda>pm. digits10 (unat (ContainerPort pm))) (ac_Ports ac)) acs))
            '',''])"
proof -
  from created_inputs_RunContainerizedAgent [OF assms]
  obtain info :: Info and acs where
    acs: "those (map s (P_AdditionalContainers params)) = Some acs" and
    input: "input = mainContainerInput rt config
       (params\<lparr>P_CPU := clampCPU (P_CPU params) (float32_of_uint64 (TotalCPUs info)),
               P_Memory := clampMemory (P_Memory params) (ucast (TotalMemoryBytes info div mebi))\<rparr>)
       (map (clampAdditionalContainer (float32_of_uint64 (TotalCPUs info))
              (ucast (TotalMemoryBytes info div mebi))) acs)"
    by blast
  have len: "length acs = length (P_AdditionalContainers params)"
  proof -
    have "length xs = length ys" if "those (map f ys) = Some xs" for f :: "nat \<Rightarrow> AdditionalContainer option" and xs ys
      using that by (induction ys arbitrary: xs) (auto split: option.splits)
    with acs show ?thesis by blast
  qed
  then have "(acs = []) = (P_AdditionalContainers params = [])"
    by (metis length_0_conv)
  with acs input show ?thesis
    by (auto simp: Env_mainContainerInput wait_for_ports_clamped)
qed

subsection \<open>The worked run\<close>

lemma example_info:
  "float32_of_uint64 4 = Finite 4" "(ucast (8589934592 div mebi :: 64 word) :: 32 word) = 8192"
  by (simp_all add: float32_of_uint64_def mebi_def)

lemma example_clamp:
  "clampAdditionalContainers (Finite 4) 8192 [1, 2] example_store =
     ([1 \<mapsto> example_db\<lparr>ac_Cpu := Finite 1, ac_Memory := 8192\<rparr>,
       2 \<mapsto> example_cache\<lparr>ac_Cpu := Finite 4, ac_Memory := 512\<rparr>], True)"
  by (simp add: example_store_def clampAdditionalContainer_def clampCPU_is_math_Min math_Min_def
      f_lt_def f_eq_def clampMemory_def example_db_def example_cache_def)

lemma example_created_inputs:
  "created_inputs (trace (RunContainerizedAgent example_runtime example_config example_params example_store)) =
     [mainContainerInput example_runtime example_config
        (example_params\<lparr>P_CPU := Finite 4, P_Memory := 8192\<rparr>)
        [example_db\<lparr>ac_Cpu := Finite 1, ac_Memory := 8192\<rparr>,
         example_cache\<lparr>ac_Cpu := Finite 4, ac_Memory := 512\<rparr>]]"
proof (cases rule: RunContainerizedAgent_cases [of example_config example_runtime example_params example_store])
  case (no_info e)
  then show ?thesis by (simp add: example_config_def example_backend_def)
next
  case (nil_pointer info)
  then show ?thesis by (simp add: example_params_def example_store_def)
next
  case (no_image info s1 e)
  then show ?thesis by (simp add: example_config_def example_backend_def pullHelper_def)
next
  case (not_created info s1 params1 acs e)
  then show ?thesis by (simp add: example_config_def example_backend_def)
next
  case (created info s1 params1 acs cont)
  from created(1) have info: "info = \<lparr>TotalCPUs = 4, TotalMemoryBytes = 8589934592\<rparr>"
    by (simp add: example_config_def example_backend_def)
  from created(2) have s1: "s1 = [1 \<mapsto> example_db\<lparr>ac_Cpu := Finite 1, ac_Memory := 8192\<rparr>,
       2 \<mapsto> example_cache\<lparr>ac_Cpu := Finite 4, ac_Memory := 512\<rparr>]"
    using example_clamp by (simp add: info example_info example_params_def)
  from created(4) have acs: "acs = [example_db\<lparr>ac_Cpu := Finite 1, ac_Memory := 8192\<rparr>,
         example_cache\<lparr>ac_Cpu := Finite 4, ac_Memory := 512\<rparr>]"
    by (simp add: s1 example_params_def)
  from created(3) have p1: "params1 = example_params\<lparr>P_CPU := Finite 4, P_Memory := 8192\<rparr>"
    by (simp add: info example_info example_params_def clampCPU_is_math_Min math_Min_def
        f_lt_def f_eq_def clampMemory_def)
  from created(9) show ?thesis
    by (simp add: acs p1 created_inputs_Cons)
qed

text \<open>The entrypoint and the virtual-machine command of the worked run.\<close>

theorem agent_argument_vectors_witness:
  "created_inputs (trace (RunContainerizedAgent example_runtime example_config example_params example_store)) \<noteq> [] \<and>
   Entrypoint (hd (created_inputs
      (trace (RunContainerizedAgent example_runtime example_config example_params example_store)))) =
     [''/tmp/cirrus-ci-agent'', ''-api-endpoint'', ''http://127.0.0.1:8080'',
      ''-server-token'', ''server'', ''-client-token'', ''client'', ''-task-id'', ''42'',
      ''-command-from'', ''build'', ''-command-to'', ''test''] \<and>
   Parallels_command ''/tmp/agent'' example_config =
     [''/tmp/agent'', ''-api-endpoint'', ''http://127.0.0.1:8080'',
      ''-server-token'', [CHR 0x22] @ ''server'' @ [CHR 0x22],
      ''-client-token'', [CHR 0x22] @ ''client'' @ [CHR 0x22], ''-task-id'', ''42'']"
proof -
  let ?R = "RunContainerizedAgent example_runtime example_config example_params example_store"
  have ne: "created_inputs (trace ?R) \<noteq> []"
    by (simp add: example_created_inputs)
  then have mem: "hd (created_inputs (trace ?R)) \<in> set (created_inputs (trace ?R))"
    by simp
  have t: "FormatInt 42 = ''42''"
    by (simp add: FormatInt_def digits10.simps digit_char_def)
  from agent_argument_vectors [of example_runtime example_config example_params "[]" example_store
      "''/tmp/agent''" "\<lparr>Year = 2024, Month = 1, Day = 2, Hour = 3, Minute = 4, Second = 5\<rparr>"] mem
  have "Entrypoint (hd (created_inputs (trace ?R))) =
        agent_arguments (ContainerAgentPath example_runtime (P_Platform example_params))
          (ContainerEndpoint example_config) (ServerSecret example_config)
          (ClientSecret example_config) (TaskID example_config)
        @ [''-command-from'', P_CommandFrom example_params, ''-command-to'', P_CommandTo example_params]"
    and "Parallels_command ''/tmp/agent'' example_config =
     (agent_arguments ''/tmp/agent'' (DirectEndpoint example_config)
        (ServerSecret example_config) (ClientSecret example_config) (TaskID example_config))
     [4 := double_quoted (ServerSecret example_config), 6 := double_quoted (ClientSecret example_config)]"
    by blast+
  then show ?thesis
    using ne
    by (simp add: agent_arguments_def example_runtime_def example_config_def example_params_def t
        double_quoted_def)
qed

text \<open>
  In the worked run, the additional containers expose the ports 80 and 443,
  and 8080.
\<close>

theorem CIRRUS_PORTS_WAIT_FOR_set_witness:
  "created_inputs (trace (RunContainerizedAgent example_runtime example_config example_params example_store)) \<noteq> [] \<and>
   Env (hd (created_inputs
      (trace (RunContainerizedAgent example_runtime example_config example_params example_store)))) =
     [''CIRRUS_PORTS_WAIT_FOR'' \<mapsto> ''80,443,8080'']"
proof -
  let ?R = "RunContainerizedAgent example_runtime example_config example_params example_store"
  have ne: "created_inputs (trace ?R) \<noteq> []"
    by (simp add: example_created_inputs)
  then have mem: "hd (created_inputs (trace ?R)) \<in> set (created_inputs (trace ?R))"
    by simp
  from CIRRUS_PORTS_WAIT_FOR_set [OF mem]
  obtain acs where
    acs: "those (map example_store (P_AdditionalContainers example_params)) = Some acs" and
    env: "Env (hd (created_inputs (trace ?R))) =
       (if P_AdditionalContainers example_params = [] then Map.empty
        else [''CIRRUS_PORTS_WAIT_FOR'' \<mapsto>
          Join (concat (map (\<lambda>ac. map (\<lambda>pm. digits10 (unat (ContainerPort pm))) (ac_Ports ac)) acs))
            '',''])"
    by blast
  from acs have "acs = [example_db, example_cache]"
    by (simp add: example_params_def example_store_def)
  with env have "Env (hd (created_inputs (trace ?R))) = [''CIRRUS_PORTS_WAIT_FOR'' \<mapsto> ''80,443,8080'']"
    by (simp add: example_params_def example_db_def example_cache_def digits10.simps digit_char_def)
  with ne show ?thesis ..
qed

subsection \<open>The quotas after a run\<close>

lemma after_RunContainerizedAgent:
  assumes "SystemInfo (ContainerBackend config) = Inr info"
  shows "params_after (RunContainerizedAgent rt config params s) =
           params\<lparr>P_CPU := clampCPU (P_CPU params) (float32_of_uint64 (TotalCPUs info)),
                  P_Memory := clampMemory (P_Memory params) (ucast (TotalMemoryBytes info div mebi))\<rparr> \<and>
         store_after (RunContainerizedAgent rt config params s) =
           fst (clampAdditionalContainers (float32_of_uint64 (TotalCPUs info))
             (ucast (TotalMemoryBytes info div mebi)) (P_AdditionalContainers params) s)"
  using assms
  by (simp add: RunContainerizedAgent_def Let_def
      split: prod.splits bool.splits option.splits sum.splits)

text \<open>
  C10. When the capacity query fails, the caller's parameters and additional
  containers are as before. When it succeeds, and no pointer to an additional
  container is nil, then however the run ends, the caller finds the CPU and the
  memory quota of the parameters clamped and every other field of the
  parameters as before; every additional container that the parameters point
  to has its two quotas clamped and its other fields as before; and every other
  object of the store is as before.
\<close>

theorem quotas_clamped_in_place:
  "(SystemInfo (ContainerBackend config) = Inl e \<longrightarrow>
      params_after (RunContainerizedAgent rt config params s) = params \<and>
      store_after (RunContainerizedAgent rt config params s) = s) \<and>
   (SystemInfo (ContainerBackend config) = Inr info \<and>
    set (P_AdditionalContainers params) \<subseteq> dom s \<longrightarrow>
      outcome (RunContainerizedAgent rt config params s) \<noteq> Panicked \<and>
      params_after (RunContainerizedAgent rt config params s) =
        params\<lparr>P_CPU := clampCPU (P_CPU params) (float32_of_uint64 (TotalCPUs info)),
               P_Memory := clampMemory (P_Memory params) (ucast (TotalMemoryBytes info div mebi))\<rparr> \<and>
      (\<forall>p. store_after (RunContainerizedAgent rt config params s) p =
         (if p \<in> set (P_AdditionalContainers params) then
            map_option (\<lambda>ac. ac
              \<lparr>ac_Cpu := clampCPU (ac_Cpu ac) (float32_of_uint64 (TotalCPUs info)),
               ac_Memory := clampMemory (ac_Memory ac) (ucast (TotalMemoryBytes info div mebi))\<rparr>) (s p)
          else s p)))"
proof -
  let ?R = "RunContainerizedAgent rt config params s"
  have fail: "params_after ?R = params \<and> store_after ?R = s"
    if "SystemInfo (ContainerBackend config) = Inl e"
    using that by (simp add: RunContainerizedAgent_def)
  have ok: "outcome ?R \<noteq> Panicked \<and>
      params_after ?R =
        params\<lparr>P_CPU := clampCPU (P_CPU params) (float32_of_uint64 (TotalCPUs info)),
               P_Memory := clampMemory (P_Memory params) (ucast (TotalMemoryBytes info div mebi))\<rparr> \<and>
      (\<forall>p. store_after ?R p =
         (if p \<in> set (P_AdditionalContainers params) then
            map_option (\<lambda>ac. ac
              \<lparr>ac_Cpu := clampCPU (ac_Cpu ac) (float32_of_uint64 (TotalCPUs info)),
               ac_Memory := clampMemory (ac_Memory ac) (ucast (TotalMemoryBytes info div mebi))\<rparr>) (s p)
          else s p))"
    if si: "SystemInfo (ContainerBackend config) = Inr info"
      and dom: "set (P_AdditionalContainers params) \<subseteq> dom s"
  proof -
    let ?cpu = "float32_of_uint64 (TotalCPUs info)"
    let ?mem = "ucast (TotalMemoryBytes info div mebi) :: 32 word"
    obtain s1 b where cl: "clampAdditionalContainers ?cpu ?mem (P_AdditionalContainers params) s = (s1, b)"
      by (cases "clampAdditionalContainers ?cpu ?mem (P_AdditionalContainers params) s")
    from clampAdditionalContainers_store [OF cl dom]
    have st: "\<And>p. s1 p = (if p \<in> set (P_AdditionalContainers params)
        then map_option (clampAdditionalContainer ?cpu ?mem) (s p) else s p)"
      by simp
    have cac: "clampAdditionalContainer ?cpu ?mem =
        (\<lambda>ac. ac\<lparr>ac_Cpu := clampCPU (ac_Cpu ac) ?cpu, ac_Memory := clampMemory (ac_Memory ac) ?mem\<rparr>)"
      by (rule ext) (simp add: clampAdditionalContainer_def)
    have np: "outcome ?R \<noteq> Panicked"
    proof (cases rule: RunContainerizedAgent_cases [of config rt params s])
      case (no_info e)
      then show ?thesis by simp
    next
      case (nil_pointer info)
      with dom show ?thesis by simp
    next
      case (no_image info s1 e)
      then show ?thesis by simp
    next
      case (not_created info s1 params1 acs e)
      then show ?thesis by simp
    next
      case (created info s1 params1 acs cont)
      have "cr_outcome (run_created rt config acs cont) \<noteq> Panicked"
        by (simp add: run_created_def Let_def return_deferred_def
            split: option.splits sum.splits received.splits prod.splits)
      with created show ?thesis by simp
    qed
    from after_RunContainerizedAgent [OF si, of rt params s] cl st np show ?thesis
      by (simp add: cac)
  qed
  from fail ok show ?thesis
    by blast
qed

text \<open>
  Two runs on the backend of the worked run: one in which the capacity query
  fails, and one that ends with an error after the clamp, because the backend
  cannot create a container.
\<close>

theorem quotas_clamped_in_place_witness:
  "params_after (RunContainerizedAgent example_runtime
      (example_config\<lparr>ContainerBackend :=
         example_backend\<lparr>SystemInfo := Inl (ErrorsNew ''daemon is not running'')\<rparr>\<rparr>)
      example_params example_store) = example_params \<and>
   store_after (RunContainerizedAgent example_runtime
      (example_config\<lparr>ContainerBackend :=
         example_backend\<lparr>SystemInfo := Inl (ErrorsNew ''daemon is not running'')\<rparr>\<rparr>)
      example_params example_store) = example_store \<and>
   outcome (RunContainerizedAgent example_runtime
      (example_config\<lparr>ContainerBackend :=
         example_backend\<lparr>ContainerCreate := (\<lambda>input. Inl (ErrorsNew ''no space left on device''))\<rparr>\<rparr>)
      example_params example_store) = Returned (Some (ErrorsNew ''no space left on device'')) \<and>
   params_after (RunContainerizedAgent example_runtime
      (example_config\<lparr>ContainerBackend :=
         example_backend\<lparr>ContainerCreate := (\<lambda>input. Inl (ErrorsNew ''no space left on device''))\<rparr>\<rparr>)
      example_params example_store) = example_params\<lparr>P_CPU := Finite 4, P_Memory := 8192\<rparr> \<and>
   store_after (RunContainerizedAgent example_runtime
      (example_config\<lparr>ContainerBackend :=
         example_backend\<lparr>ContainerCreate := (\<lambda>input. Inl (ErrorsNew ''no space left on device''))\<rparr>\<rparr>)
      example_params example_store) 1 = Some (example_db\<lparr>ac_Memory := 8192\<rparr>) \<and>
   store_after (RunContainerizedAgent example_runtime
      (example_config\<lparr>ContainerBackend :=
         example_backend\<lparr>ContainerCreate := (\<lambda>input. Inl (ErrorsNew ''no space left on device''))\<rparr>\<rparr>)
      example_params example_store) 2 = Some (example_cache\<lparr>ac_Cpu := Finite 4\<rparr>)"
proof -
  let ?config = "example_config\<lparr>ContainerBackend :=
         example_backend\<lparr>ContainerCreate := (\<lambda>input. Inl (ErrorsNew ''no space left on device''))\<rparr>\<rparr>"
  let ?R = "RunContainerizedAgent example_runtime ?config example_params example_store"
  let ?info = "\<lparr>TotalCPUs = 4, TotalMemoryBytes = 8589934592\<rparr>"
  have si: "SystemInfo (ContainerBackend ?config) = Inr ?info"
    by (simp add: example_backend_def)
  have dom: "set (P_AdditionalContainers example_params) \<subseteq> dom example_store"
    by (simp add: example_params_def example_store_def)
  from quotas_clamped_in_place [of ?config "ErrorsNew []" example_runtime example_params example_store ?info] si dom
  have p: "params_after ?R =
        example_params\<lparr>P_CPU := clampCPU (P_CPU example_params) (float32_of_uint64 (TotalCPUs ?info)),
               P_Memory := clampMemory (P_Memory example_params) (ucast (TotalMemoryBytes ?info div mebi))\<rparr>"
    and st: "\<And>p. store_after ?R p =
         (if p \<in> set (P_AdditionalContainers example_params) then
            map_option (\<lambda>ac. ac
              \<lparr>ac_Cpu := clampCPU (ac_Cpu ac) (float32_of_uint64 (TotalCPUs ?info)),
               ac_Memory := clampMemory (ac_Memory ac) (ucast (TotalMemoryBytes ?info div mebi))\<rparr>)
              (example_store p)
          else example_store p)"
    by blast+
  have out: "outcome ?R = Returned (Some (ErrorsNew ''no space left on device''))"
    using example_clamp
    by (simp add: RunContainerizedAgent_def Let_def example_backend_def example_info
        example_params_def pullHelper_def example_config_def)
  have p': "params_after ?R = example_params\<lparr>P_CPU := Finite 4, P_Memory := 8192\<rparr>"
    unfolding p
    by (simp add: example_info example_params_def clampCPU_is_math_Min math_Min_def
        f_lt_def f_eq_def clampMemory_def)
  have s1: "store_after ?R 1 = Some (example_db\<lparr>ac_Memory := 8192\<rparr>)"
    by (subst st)
       (simp add: example_info example_params_def example_store_def example_db_def
        clampCPU_is_math_Min math_Min_def f_lt_def f_eq_def clampMemory_def)
  have s2: "store_after ?R 2 = Some (example_cache\<lparr>ac_Cpu := Finite 4\<rparr>)"
    by (subst st)
       (simp add: example_info example_params_def example_store_def example_cache_def
        clampCPU_is_math_Min math_Min_def f_lt_def f_eq_def clampMemory_def)
  have f: "SystemInfo (ContainerBackend (example_config\<lparr>ContainerBackend :=
         example_backend\<lparr>SystemInfo := Inl (ErrorsNew ''daemon is not running'')\<rparr>\<rparr>)) =
       Inl (ErrorsNew ''daemon is not running'')"
    by simp
  from quotas_clamped_in_place [of "example_config\<lparr>ContainerBackend :=
         example_backend\<lparr>SystemInfo := Inl (ErrorsNew ''daemon is not running'')\<rparr>\<rparr>"
      "ErrorsNew ''daemon is not running''" example_runtime example_params example_store ?info] f
  have u: "params_after (RunContainerizedAgent example_runtime
      (example_config\<lparr>ContainerBackend :=
         example_backend\<lparr>SystemInfo := Inl (ErrorsNew ''daemon is not running'')\<rparr>\<rparr>)
      example_params example_store) = example_params \<and>
   store_after (RunContainerizedAgent example_runtime
      (example_config\<lparr>ContainerBackend :=
         example_backend\<lparr>SystemInfo := Inl (ErrorsNew ''daemon is not running'')\<rparr>\<rparr>)
      example_params example_store) = example_store"
    by blast
  from u out p' s1 s2 show ?thesis
    by blast
qed

subsection \<open>Host-port warnings\<close>

lemma port_warnings_append [simp]: "port_warnings (xs @ ys) = port_warnings xs + port_warnings ys"
  by (simp add: port_warnings_def)

lemma port_warnings_Nil [simp]: "port_warnings [] = 0"
  by (simp add: port_warnings_def)

lemma port_warnings_Cons: "port_warnings (ev # evs) = (if is_port_warning ev then 1 else 0) + port_warnings evs"
  by (simp add: port_warnings_def)

lemma is_port_warning_port_mapping_warning [simp]: "is_port_warning (port_mapping_warning name)"
  by (simp add: is_port_warning_def port_mapping_warning_def HasPrefix_def)

lemma not_port_warning_level [simp]:
  "lvl \<noteq> Warn \<Longrightarrow> \<not> is_port_warning (Log scope lvl msg)"
  "\<not> is_port_warning (Backend call)"
  "\<not> is_port_warning (Finish scope b)"
  by (simp_all add: is_port_warning_def)

lemma port_warnings_warn_port_mappings:
  "port_warnings (warn_port_mappings name ports) =
     (if \<exists>portMapping \<in> set ports. HostPort portMapping \<noteq> 0 then 1 else 0)"
  by (induction ports) (simp_all add: port_warnings_Cons)

lemma port_warnings_pullHelper [simp]: "port_warnings (fst (pullHelper backend reference)) = 0"
  using pullHelper_events [of backend reference]
  by (auto simp: port_warnings_Cons)

lemma port_warnings_cleanup_additional [simp]:
  "port_warnings (cleanup_additional backend noCleanup cont) = 0"
  by (simp add: cleanup_additional_def port_warnings_Cons is_port_warning_def HasPrefix_def
      split: option.splits)

lemma port_warnings_runAdditionalContainer:
  "port_warnings (fst (runAdditionalContainer rt backend ac cont noCleanup)) =
     (if sidecar_created rt backend ac cont \<and> has_host_port ac then 1 else 0)"
proof (cases "pullHelper backend (ac_Image ac)")
  case (Pair ev0 pe)
  have ev0: "port_warnings ev0 = 0"
    using port_warnings_pullHelper [of backend "ac_Image ac"] Pair by simp
  show ?thesis
    using Pair ev0
    by (auto simp: runAdditionalContainer_def sidecar_created_def has_host_port_def Let_def
        port_warnings_Cons port_warnings_warn_port_mappings
        split: option.splits sum.splits wait_delivery.splits)
qed

lemma port_warnings_runs:
  "port_warnings (concat (map fst (map (\<lambda>ac. runAdditionalContainer rt backend ac cont noCleanup) acs))) =
     length (filter (\<lambda>ac. sidecar_created rt backend ac cont \<and> has_host_port ac) acs)"
  by (induction acs) (simp_all add: port_warnings_runAdditionalContainer)

lemma cr_sidecars_run_created:
  "cr_sidecars (run_created rt config acs cont) =
     map (\<lambda>ac. runAdditionalContainer rt (ContainerBackend config) ac cont (NoCleanup config)) acs"
  by (simp add: run_created_def Let_def split: option.splits sum.splits received.splits prod.splits)




subsection \<open>Additional containers: how they end\<close>

lemma set_warn_port_mappings: "set (warn_port_mappings name ports) \<subseteq> {port_mapping_warning name}"
  by (induction ports) simp_all

lemma no_call_in_warn_port_mappings [simp]: "Backend call \<notin> set (warn_port_mappings name ports)"
  using set_warn_port_mappings [of name ports] by (auto simp: port_mapping_warning_def)

lemma no_wait_in_pullHelper [simp]:
  "Backend (Call_ContainerWait c) \<notin> set (fst (pullHelper backend reference))"
  "Backend (Call_ContainerStart c) \<notin> set (fst (pullHelper backend reference))"
  using pullHelper_events [of backend reference] by auto

lemma no_wait_in_cleanup_additional [simp]:
  "Backend (Call_ContainerWait c) \<notin> set (cleanup_additional backend noCleanup cont)"
  by (simp add: cleanup_additional_def split: option.splits)

lemma wraps_ErrAdditionalContainerFailed [simp]:
  "errors_Is (Errorf_w_v ErrAdditionalContainerFailed e) ErrAdditionalContainerFailed"
  by (simp add: Errorf_w_v_def ErrAdditionalContainerFailed_def)

lemma runAdditionalContainer_error:
  assumes "snd (runAdditionalContainer rt backend ac connectTo noCleanup) = Returned (Some e)"
  shows "errors_Is e ErrAdditionalContainerFailed"
proof (cases "pullHelper backend (ac_Image ac)")
  case (Pair ev0 pe)
  then have "pe = Some e \<Longrightarrow> errors_Is e ErrAdditionalContainerFailed"
    using pullHelper_error [of backend "ac_Image ac" e] by simp
  with assms Pair show ?thesis
    by (auto simp: runAdditionalContainer_def Let_def
        split: option.splits sum.splits wait_delivery.splits)
qed

lemma runAdditionalContainer_wait_result:
  assumes "Backend (Call_ContainerWait c) \<in> set (fst (runAdditionalContainer rt backend ac connectTo noCleanup))"
    and "ContainerWait backend c = OnWaitChan res"
  shows "snd (runAdditionalContainer rt backend ac connectTo noCleanup) = Returned None"
proof (cases "pullHelper backend (ac_Image ac)")
  case (Pair ev0 pe)
  then have "Backend (Call_ContainerWait c) \<notin> set ev0"
    using no_wait_in_pullHelper(1) [of c backend "ac_Image ac"] by simp
  with assms Pair show ?thesis
    by (auto simp: runAdditionalContainer_def Let_def
        split: option.splits sum.splits wait_delivery.splits)
qed

lemma set_map_filter_eq: "set (List.map_filter f xs) = {y. \<exists>x \<in> set xs. f x = Some y}"
  by (induction xs) (auto simp: map_filter_simps split: option.splits)

lemma sent_errors_iff: "e \<in> set (sent_errors runs) \<longleftrightarrow> (\<exists>run \<in> set runs. snd run = Returned (Some e))"
proof -
  have "(case snd run of Returned (Some x) \<Rightarrow> Some x | _ \<Rightarrow> None) = Some e \<longleftrightarrow>
        snd run = Returned (Some e)" for run :: "event list \<times> outcome"
    by (cases "snd run") (auto split: option.splits)
  then show ?thesis
    by (simp add: sent_errors_def set_map_filter_eq)
qed

lemma select_recv_Some: "select_recv ready pick = Some m \<Longrightarrow> m \<in> set ready"
  by (auto simp: select_recv_def split: if_splits)

lemma select_recv_None: "select_recv ready pick = None \<longleftrightarrow> ready = []"
  by (simp add: select_recv_def)

lemma deliverable_mem:
  "From_waitChan res \<in> set (deliverable main errs) \<longleftrightarrow> main = OnWaitChan res"
  "From_errChan e \<in> set (deliverable main errs) \<longleftrightarrow> main = OnErrChan e"
  "From_additionalContainersErrChan x \<in> set (deliverable main errs) \<longleftrightarrow> x \<in> set errs"
  by (auto simp: deliverable_def split: wait_delivery.splits)

subsection \<open>The orchestrator after the creation of the main container\<close>

lemma teardown_blocked_iff:
  "snd (teardown config cont runs started) \<longleftrightarrow> started \<and> \<not> (\<exists>run \<in> set runs. snd run = Blocked)"
  by (simp add: teardown_def Let_def)

lemma cr_outcome_return_deferred:
  "cr_outcome (case return_deferred config cont runs started ev ret of
      (tr, out) \<Rightarrow> \<lparr>cr_trace = tr, cr_outcome = out, cr_sidecars = sc, cr_log_reader = lr\<rparr>) =
     (if started \<and> \<not> (\<exists>run \<in> set runs. snd run = Blocked) then Returned ret else Blocked)"
  using teardown_blocked_iff [of config cont runs started]
  by (auto simp: return_deferred_def split: prod.splits)

lemma fst_return_deferred:
  "fst (return_deferred config cont runs started ev ret) = ev @ fst (teardown config cont runs started)"
  by (simp add: return_deferred_def split: prod.splits)

text \<open>How the orchestrator ends once the main container is started and its logs are read.\<close>

lemma cr_outcome_waiting:
  assumes "ContainerStart (ContainerBackend config) cont = None"
    and "ContainerLogs (ContainerBackend config) cont = Inr logChan"
  shows "cr_outcome (run_created rt config acs cont) =
     (case select_recv (deliverable (ContainerWait (ContainerBackend config) cont)
               (sent_errors (cr_sidecars (run_created rt config acs cont)))) (select_pick rt) of
        None \<Rightarrow> Blocked
      | Some m \<Rightarrow>
          (if \<exists>run \<in> set (cr_sidecars (run_created rt config acs cont)). snd run = Blocked then Blocked
           else Returned (case m of From_waitChan res \<Rightarrow> None | From_errChan e \<Rightarrow> e
                  | From_additionalContainersErrChan e \<Rightarrow> Some e)))"
proof -
  let ?runs = "map (\<lambda>ac. runAdditionalContainer rt (ContainerBackend config) ac cont (NoCleanup config)) acs"
  have sc: "cr_sidecars (run_created rt config acs cont) = ?runs"
    by (rule cr_sidecars_run_created)
  have "cr_outcome (run_created rt config acs cont) =
     (case select_recv (deliverable (ContainerWait (ContainerBackend config) cont)
               (sent_errors ?runs)) (select_pick rt) of
        None \<Rightarrow> Blocked
      | Some m \<Rightarrow>
          (if \<exists>run \<in> set ?runs. snd run = Blocked then Blocked
           else Returned (case m of From_waitChan res \<Rightarrow> None | From_errChan e \<Rightarrow> e
                  | From_additionalContainersErrChan e \<Rightarrow> Some e)))"
  proof (cases "select_recv (deliverable (ContainerWait (ContainerBackend config) cont)
               (sent_errors ?runs)) (select_pick rt)")
    case None
    with assms show ?thesis
      by (simp add: run_created_def Let_def)
  next
    case (Some m)
    with assms show ?thesis
      by (cases m) (simp_all add: run_created_def Let_def cr_outcome_return_deferred)
  qed
  then show ?thesis
    by (simp only: sc)
qed

lemma cr_outcome_not_started:
  assumes "ContainerStart (ContainerBackend config) cont \<noteq> None \<or>
           (\<exists>e. ContainerLogs (ContainerBackend config) cont = Inl e)"
  shows "cr_outcome (run_created rt config acs cont) = Blocked"
  using assms
  by (auto simp: run_created_def Let_def cr_outcome_return_deferred split: option.splits sum.splits)

lemma in_set_map_Go [simp]: "Backend call \<notin> set (map (\<lambda>i. Go (f i)) xs)"
  by auto

lemma no_wait_in_teardown [simp]:
  "Backend (Call_ContainerWait c) \<notin> set (fst (teardown config cont runs started))"
  "Backend (Call_ContainerStart c) \<notin> set (fst (teardown config cont runs started))"
  by (simp_all add: teardown_def Let_def split: option.splits)

lemma wait_in_cr_trace:
  assumes "Backend (Call_ContainerWait c) \<in> set (cr_trace (run_created rt config acs cont))"
  shows "c = cont \<and> ContainerStart (ContainerBackend config) cont = None \<and>
         (\<exists>logChan. ContainerLogs (ContainerBackend config) cont = Inr logChan)"
  using assms
  by (auto simp: run_created_def Let_def cr_trace_return_deferred fst_return_deferred
      split: option.splits sum.splits received.splits)

lemma start_in_cr_trace:
  "Backend (Call_ContainerStart c) \<in> set (cr_trace (run_created rt config acs cont)) \<longleftrightarrow> c = cont"
  by (auto simp: run_created_def Let_def cr_trace_return_deferred fst_return_deferred
      split: option.splits sum.splits received.splits)

text \<open>A run whose trace has a wait, or a start, on a container has created it as its main container.\<close>

lemma created_by_marker:
  assumes "Backend (Call_ContainerWait c) \<in> set (trace (RunContainerizedAgent rt config params s)) \<or>
           Backend (Call_ContainerStart c) \<in> set (trace (RunContainerizedAgent rt config params s))"
  shows "\<exists>acs pre.
     outcome (RunContainerizedAgent rt config params s) = cr_outcome (run_created rt config acs c) \<and>
     sidecars (RunContainerizedAgent rt config params s) = cr_sidecars (run_created rt config acs c) \<and>
     trace (RunContainerizedAgent rt config params s) = pre @ cr_trace (run_created rt config acs c) \<and>
     (\<forall>ev \<in> set pre. (\<exists>scope lvl msg. ev = Log scope lvl msg \<and> (scope \<noteq> [] \<or> lvl = Debug)) \<or>
        (\<exists>scope b. ev = Finish scope b) \<or> ev = Backend Call_SystemInfo \<or>
        (\<exists>r. ev = Backend (Call_ImagePull r)) \<or> (\<exists>i. ev = Backend (Call_ContainerCreate i))) \<and>
     (Backend (Call_ContainerWait c) \<in> set (trace (RunContainerizedAgent rt config params s)) \<longrightarrow>
        ContainerStart (ContainerBackend config) c = None \<and>
        (\<exists>logChan. ContainerLogs (ContainerBackend config) c = Inr logChan))"
proof (cases rule: RunContainerizedAgent_cases [of config rt params s])
  case (no_info e)
  with assms show ?thesis by simp
next
  case (nil_pointer info)
  with assms show ?thesis by simp
next
  case (no_image info s1 e)
  with assms show ?thesis by simp
next
  case (not_created info s1 params1 acs e)
  with assms show ?thesis by simp
next
  case (created info s1 params1 acs cont)
  let ?pre = "Backend Call_SystemInfo # fst (pullHelper (ContainerBackend config) (P_Image params))
         @ [Log [] Debug (''creating container using working volume '' @ P_WorkingVolumeName params),
            Backend (Call_ContainerCreate (mainContainerInput rt config params1 acs))]"
  from assms created(9)
  have "Backend (Call_ContainerWait c) \<in> set (cr_trace (run_created rt config acs cont)) \<or>
        Backend (Call_ContainerStart c) \<in> set (cr_trace (run_created rt config acs cont))"
    by simp
  then have c: "c = cont"
    using wait_in_cr_trace [of c rt config acs cont] start_in_cr_trace [of c rt config acs cont]
    by blast
  have pre: "\<forall>ev \<in> set ?pre. (\<exists>scope lvl msg. ev = Log scope lvl msg \<and> (scope \<noteq> [] \<or> lvl = Debug)) \<or>
        (\<exists>scope b. ev = Finish scope b) \<or> ev = Backend Call_SystemInfo \<or>
        (\<exists>r. ev = Backend (Call_ImagePull r)) \<or> (\<exists>i. ev = Backend (Call_ContainerCreate i))"
    using pullHelper_events [of "ContainerBackend config" "P_Image params"]
    by auto
  have w: "ContainerStart (ContainerBackend config) c = None \<and>
        (\<exists>logChan. ContainerLogs (ContainerBackend config) c = Inr logChan)"
    if "Backend (Call_ContainerWait c) \<in> set (trace (RunContainerizedAgent rt config params s))"
  proof -
    from that created(9) have "Backend (Call_ContainerWait c) \<in> set (cr_trace (run_created rt config acs cont))"
      by simp
    from wait_in_cr_trace [OF this] c show ?thesis
      by simp
  qed
  from created(7,9,10) c pre w show ?thesis
    by (intro exI [of _ acs] exI [of _ ?pre]) simp
qed

subsection \<open>The worked run, after the creation of the main container\<close>

lemma example_run:
  "\<exists>pre.
     outcome (RunContainerizedAgent example_runtime example_config example_params example_store) =
       cr_outcome (run_created example_runtime example_config
         [example_db\<lparr>ac_Cpu := Finite 1, ac_Memory := 8192\<rparr>,
          example_cache\<lparr>ac_Cpu := Finite 4, ac_Memory := 512\<rparr>] ''id-debian'') \<and>
     sidecars (RunContainerizedAgent example_runtime example_config example_params example_store) =
       cr_sidecars (run_created example_runtime example_config
         [example_db\<lparr>ac_Cpu := Finite 1, ac_Memory := 8192\<rparr>,
          example_cache\<lparr>ac_Cpu := Finite 4, ac_Memory := 512\<rparr>] ''id-debian'') \<and>
     trace (RunContainerizedAgent example_runtime example_config example_params example_store) =
       pre @ cr_trace (run_created example_runtime example_config
         [example_db\<lparr>ac_Cpu := Finite 1, ac_Memory := 8192\<rparr>,
          example_cache\<lparr>ac_Cpu := Finite 4, ac_Memory := 512\<rparr>] ''id-debian'')"
proof (cases rule: RunContainerizedAgent_cases [of example_config example_runtime example_params example_store])
  case (no_info e)
  then show ?thesis by (simp add: example_config_def example_backend_def)
next
  case (nil_pointer info)
  then show ?thesis by (simp add: example_params_def example_store_def)
next
  case (no_image info s1 e)
  then show ?thesis by (simp add: example_config_def example_backend_def pullHelper_def)
next
  case (not_created info s1 params1 acs e)
  then show ?thesis by (simp add: example_config_def example_backend_def)
next
  case (created info s1 params1 acs cont)
  from created(1) have info: "info = \<lparr>TotalCPUs = 4, TotalMemoryBytes = 8589934592\<rparr>"
    by (simp add: example_config_def example_backend_def)
  from created(2) have s1: "s1 = [1 \<mapsto> example_db\<lparr>ac_Cpu := Finite 1, ac_Memory := 8192\<rparr>,
       2 \<mapsto> example_cache\<lparr>ac_Cpu := Finite 4, ac_Memory := 512\<rparr>]"
    using example_clamp by (simp add: info example_info example_params_def)
  from created(4) have acs: "acs = [example_db\<lparr>ac_Cpu := Finite 1, ac_Memory := 8192\<rparr>,
         example_cache\<lparr>ac_Cpu := Finite 4, ac_Memory := 512\<rparr>]"
    by (simp add: s1 example_params_def)
  from created(3,6) have cont: "cont = ''id-debian''"
    by (auto simp: example_config_def example_backend_def mainContainerInput_def Let_def
        example_params_def)
  from created(9) have "\<exists>pre. trace (RunContainerizedAgent example_runtime example_config example_params
      example_store) = pre @ cr_trace (run_created example_runtime example_config acs cont)"
    by (metis append_Cons append_assoc)
  with created(7,10) show ?thesis
    unfolding acs cont by simp
qed

lemma example_sidecars_return:
  "\<forall>run \<in> set (cr_sidecars (run_created example_runtime example_config
         [example_db\<lparr>ac_Cpu := Finite 1, ac_Memory := 8192\<rparr>,
          example_cache\<lparr>ac_Cpu := Finite 4, ac_Memory := 512\<rparr>] ''id-debian'')).
      snd run \<noteq> Blocked"
  by (simp add: cr_sidecars_run_created runAdditionalContainer_def pullHelper_def Let_def
      example_config_def example_backend_def example_db_def example_cache_def
      additionalContainerInput_def)

lemma example_select:
  "select_recv (deliverable (ContainerWait (ContainerBackend example_config) ''id-debian'') errs)
     (select_pick example_runtime) = Some (From_waitChan \<lparr>StatusCode = 1, wr_Error = []\<rparr>)"
  by (simp add: select_recv_def deliverable_def example_config_def example_backend_def
      example_runtime_def)

lemma example_wait_reached:
  "Backend (Call_ContainerWait ''id-debian'') \<in> set (cr_trace (run_created example_runtime example_config acs ''id-debian''))"
proof -
  have s: "ContainerStart (ContainerBackend example_config) ''id-debian'' = None"
    and l: "ContainerLogs (ContainerBackend example_config) ''id-debian'' = Inr [''hello'']"
    by (simp_all add: example_config_def example_backend_def)
  show ?thesis
    by (simp add: run_created_def Let_def s l example_select cr_trace_return_deferred
        fst_return_deferred)
qed

subsection \<open>The wait of the orchestrator\<close>



subsection \<open>The teardown\<close>

lemma teardown_steps_append [simp]:
  "teardown_steps cont (xs @ ys) = teardown_steps cont xs @ teardown_steps cont ys"
  by (simp add: teardown_steps_def map_filter_def)

lemma teardown_steps_Nil [simp]: "teardown_steps cont [] = []"
  by (simp add: teardown_steps_def map_filter_simps)

lemma teardown_steps_Cons:
  "teardown_steps cont (ev # evs) =
     (case teardown_step_of cont ev of
        None \<Rightarrow> teardown_steps cont evs
      | Some step \<Rightarrow> step # teardown_steps cont evs)"
  by (simp add: teardown_steps_def map_filter_simps split: option.splits)

lemma teardown_step_of_simps [simp]:
  "teardown_step_of cont (Cancel additionalContainersCtx) = Some Stop_sidecars"
  "teardown_step_of cont (Cancel logReaderCtx) = Some Stop_log_reader"
  "teardown_step_of cont (Wait additionalContainersWG) = Some Join_sidecars"
  "teardown_step_of cont (Wait logReaderWg) = Some Join_log_reader"
  "teardown_step_of cont (Backend (Call_ContainerDelete c)) = Some (Delete_main c)"
  "teardown_step_of cont (Backend Call_SystemInfo) = None"
  "teardown_step_of cont (Backend (Call_ImagePull r)) = None"
  "teardown_step_of cont (Backend (Call_ContainerCreate i)) = None"
  "teardown_step_of cont (Backend (Call_ContainerStart c)) = None"
  "teardown_step_of cont (Backend (Call_ContainerLogs c)) = None"
  "teardown_step_of cont (Backend (Call_ContainerWait c)) = None"
  "teardown_step_of cont (Go g) = None"
  "teardown_step_of cont (Finish scope b) = None"
  "teardown_step_of cont (Log [] Info (not_cleaning_up_message cont)) = Some (Keep_main cont)"
  "lvl \<noteq> Info \<Longrightarrow> teardown_step_of cont (Log scope lvl msg) = None"
  "scope \<noteq> [] \<Longrightarrow> teardown_step_of cont (Log scope lvl msg) = None"
  by (simp_all add: teardown_step_of_def)

lemma teardown_steps_none:
  assumes "\<forall>ev \<in> set pre. (\<exists>scope lvl msg. ev = Log scope lvl msg \<and> (scope \<noteq> [] \<or> lvl = Debug)) \<or>
        (\<exists>scope b. ev = Finish scope b) \<or> ev = Backend Call_SystemInfo \<or>
        (\<exists>r. ev = Backend (Call_ImagePull r)) \<or> (\<exists>i. ev = Backend (Call_ContainerCreate i))"
  shows "teardown_steps cont pre = []"
  using assms
proof (induction pre)
  case Nil
  then show ?case by simp
next
  case (Cons ev pre)
  then have "teardown_step_of cont ev = None"
    by auto
  with Cons show ?case
    by (simp add: teardown_steps_Cons)
qed

lemma teardown_steps_map_Go [simp]: "teardown_steps cont (map (\<lambda>i. Go (f i)) xs) = []"
  by (induction xs) (simp_all add: teardown_steps_Cons)

lemma teardown_steps_teardown:
  "teardown_steps cont (fst (teardown config cont runs started)) =
     (if \<exists>run \<in> set runs. snd run = Blocked then [Stop_sidecars, Join_sidecars]
      else [Stop_sidecars, Join_sidecars,
            if NoCleanup config then Keep_main cont else Delete_main cont,
            Stop_log_reader, Join_log_reader])"
  by (simp add: teardown_def Let_def teardown_steps_Cons split: option.splits)

lemma teardown_not_Nil [simp]: "fst (teardown config cont runs started) \<noteq> []"
  by (simp add: teardown_def Let_def)

lemma last_teardown:
  "snd (teardown config cont runs started) \<Longrightarrow>
   last (fst (teardown config cont runs started)) = Wait logReaderWg"
  by (simp add: teardown_def Let_def split: if_splits)

lemma teardown_steps_cr_trace:
  "teardown_steps cont (cr_trace (run_created rt config acs cont)) =
     (if ContainerStart (ContainerBackend config) cont = None \<and>
         (\<exists>logChan. ContainerLogs (ContainerBackend config) cont = Inr logChan) \<and>
         select_recv (deliverable (ContainerWait (ContainerBackend config) cont)
           (sent_errors (cr_sidecars (run_created rt config acs cont)))) (select_pick rt) = None
      then []
      else if \<exists>run \<in> set (cr_sidecars (run_created rt config acs cont)). snd run = Blocked
      then [Stop_sidecars, Join_sidecars]
      else [Stop_sidecars, Join_sidecars,
            if NoCleanup config then Keep_main cont else Delete_main cont,
            Stop_log_reader, Join_log_reader])"
proof -
  let ?runs = "map (\<lambda>ac. runAdditionalContainer rt (ContainerBackend config) ac cont (NoCleanup config)) acs"
  have sc: "cr_sidecars (run_created rt config acs cont) = ?runs"
    by (rule cr_sidecars_run_created)
  have "teardown_steps cont (cr_trace (run_created rt config acs cont)) =
     (if ContainerStart (ContainerBackend config) cont = None \<and>
         (\<exists>logChan. ContainerLogs (ContainerBackend config) cont = Inr logChan) \<and>
         select_recv (deliverable (ContainerWait (ContainerBackend config) cont)
           (sent_errors ?runs)) (select_pick rt) = None
      then []
      else teardown_steps cont (fst (teardown config cont ?runs True)))"
  proof (cases "ContainerStart (ContainerBackend config) cont")
    case (Some e)
    then show ?thesis
      by (simp add: run_created_def Let_def cr_trace_return_deferred fst_return_deferred
          teardown_steps_Cons teardown_steps_teardown)
  next
    case None
    note st = this
    show ?thesis
    proof (cases "ContainerLogs (ContainerBackend config) cont")
      case (Inl e)
      with st show ?thesis
        by (simp add: run_created_def Let_def cr_trace_return_deferred fst_return_deferred
            teardown_steps_Cons teardown_steps_teardown)
    next
      case (Inr logChan)
      show ?thesis
      proof (cases "select_recv (deliverable (ContainerWait (ContainerBackend config) cont)
           (sent_errors ?runs)) (select_pick rt)")
        case None
        with st Inr show ?thesis
          by (simp add: run_created_def Let_def teardown_steps_Cons)
      next
        case (Some m)
        with st Inr show ?thesis
          by (cases m)
             (simp_all add: run_created_def Let_def cr_trace_return_deferred fst_return_deferred
               teardown_steps_Cons teardown_steps_teardown)
      qed
    qed
  qed
  then show ?thesis
    by (simp only: sc teardown_steps_teardown)
qed

lemma last_cr_trace:
  assumes "cr_outcome (run_created rt config acs cont) = Returned ret"
  shows "last (cr_trace (run_created rt config acs cont)) = Wait logReaderWg"
proof -
  let ?runs = "map (\<lambda>ac. runAdditionalContainer rt (ContainerBackend config) ac cont (NoCleanup config)) acs"
  from assms cr_outcome_not_started [of config cont rt acs]
  obtain logChan where st: "ContainerStart (ContainerBackend config) cont = None"
    and lg: "ContainerLogs (ContainerBackend config) cont = Inr logChan"
    by (cases "ContainerLogs (ContainerBackend config) cont") auto
  from assms cr_outcome_waiting [OF st lg, of rt acs]
  obtain m where m: "select_recv (deliverable (ContainerWait (ContainerBackend config) cont)
           (sent_errors ?runs)) (select_pick rt) = Some m"
    and nb: "\<not> (\<exists>run \<in> set ?runs. snd run = Blocked)"
    by (auto simp: cr_sidecars_run_created split: option.splits if_splits)
  from nb have td: "snd (teardown config cont ?runs True)"
    by (simp add: teardown_blocked_iff)
  from st lg m show ?thesis
    by (cases m)
       (simp_all add: run_created_def Let_def cr_trace_return_deferred fst_return_deferred
         last_teardown [OF td])
qed

text \<open>
  C2. In a run that created the main container and went on to start it, the
  steps of the teardown are, in the trace of the orchestrator: none, when the
  orchestrator waits for ever for a message; else the cancellation of the
  additional containers' context and the wait for their goroutines, and no
  more, when one of these goroutines never ends; else these two, then the
  deletion of the main container (or, under the no-cleanup policy, the log
  line that names it), then the cancellation of the log reader's context, then
  the wait for the log reader. A run that returns has made all five steps in
  this order, each once, and the wait for the log reader is the last event of
  its trace.
\<close>

theorem teardown_in_fixed_order:
  "Backend (Call_ContainerStart cont) \<in> set (trace (RunContainerizedAgent rt config params s)) \<longrightarrow>
     teardown_steps cont (trace (RunContainerizedAgent rt config params s)) =
       (if ContainerStart (ContainerBackend config) cont = None \<and>
           (\<exists>logChan. ContainerLogs (ContainerBackend config) cont = Inr logChan) \<and>
           select_recv (deliverable (ContainerWait (ContainerBackend config) cont)
             (sent_errors (sidecars (RunContainerizedAgent rt config params s)))) (select_pick rt) = None
        then []
        else if \<exists>run \<in> set (sidecars (RunContainerizedAgent rt config params s)). snd run = Blocked
        then [Stop_sidecars, Join_sidecars]
        else [Stop_sidecars, Join_sidecars,
              if NoCleanup config then Keep_main cont else Delete_main cont,
              Stop_log_reader, Join_log_reader]) \<and>
     (\<forall>ret. outcome (RunContainerizedAgent rt config params s) = Returned ret \<longrightarrow>
        teardown_steps cont (trace (RunContainerizedAgent rt config params s)) =
          [Stop_sidecars, Join_sidecars,
           if NoCleanup config then Keep_main cont else Delete_main cont,
           Stop_log_reader, Join_log_reader] \<and>
        last (trace (RunContainerizedAgent rt config params s)) = Wait logReaderWg)"
proof
  let ?R = "RunContainerizedAgent rt config params s"
  assume "Backend (Call_ContainerStart cont) \<in> set (trace ?R)"
  with created_by_marker [of cont rt config params s]
  obtain acs pre where
    out: "outcome ?R = cr_outcome (run_created rt config acs cont)" and
    sc: "sidecars ?R = cr_sidecars (run_created rt config acs cont)" and
    tr: "trace ?R = pre @ cr_trace (run_created rt config acs cont)" and
    pre: "\<forall>ev \<in> set pre. (\<exists>scope lvl msg. ev = Log scope lvl msg \<and> (scope \<noteq> [] \<or> lvl = Debug)) \<or>
        (\<exists>scope b. ev = Finish scope b) \<or> ev = Backend Call_SystemInfo \<or>
        (\<exists>r. ev = Backend (Call_ImagePull r)) \<or> (\<exists>i. ev = Backend (Call_ContainerCreate i))"
    by blast
  have steps: "teardown_steps cont (trace ?R) = teardown_steps cont (cr_trace (run_created rt config acs cont))"
    by (simp add: tr teardown_steps_none [OF pre])
  have a: "teardown_steps cont (trace ?R) =
       (if ContainerStart (ContainerBackend config) cont = None \<and>
           (\<exists>logChan. ContainerLogs (ContainerBackend config) cont = Inr logChan) \<and>
           select_recv (deliverable (ContainerWait (ContainerBackend config) cont)
             (sent_errors (sidecars ?R))) (select_pick rt) = None
        then []
        else if \<exists>run \<in> set (sidecars ?R). snd run = Blocked
        then [Stop_sidecars, Join_sidecars]
        else [Stop_sidecars, Join_sidecars,
              if NoCleanup config then Keep_main cont else Delete_main cont,
              Stop_log_reader, Join_log_reader])"
    unfolding steps sc by (rule teardown_steps_cr_trace)
  have b: "teardown_steps cont (trace ?R) =
          [Stop_sidecars, Join_sidecars,
           if NoCleanup config then Keep_main cont else Delete_main cont,
           Stop_log_reader, Join_log_reader] \<and>
        last (trace ?R) = Wait logReaderWg"
    if r: "outcome ?R = Returned ret" for ret
  proof -
    from r out have o: "cr_outcome (run_created rt config acs cont) = Returned ret"
      by simp
    from o cr_outcome_not_started [of config cont rt acs]
    obtain logChan where st: "ContainerStart (ContainerBackend config) cont = None"
      and lg: "ContainerLogs (ContainerBackend config) cont = Inr logChan"
      by (cases "ContainerLogs (ContainerBackend config) cont") auto
    from o cr_outcome_waiting [OF st lg, of rt acs]
    have "select_recv (deliverable (ContainerWait (ContainerBackend config) cont)
           (sent_errors (sidecars ?R))) (select_pick rt) \<noteq> None"
      and "\<not> (\<exists>run \<in> set (sidecars ?R). snd run = Blocked)"
      by (auto simp: sc split: option.splits if_splits)
    with a have "teardown_steps cont (trace ?R) =
          [Stop_sidecars, Join_sidecars,
           if NoCleanup config then Keep_main cont else Delete_main cont,
           Stop_log_reader, Join_log_reader]"
      by simp
    moreover have "cr_trace (run_created rt config acs cont) \<noteq> []"
      by (simp add: run_created_def Let_def cr_trace_return_deferred fst_return_deferred
          split: option.splits sum.splits received.splits)
    then have "last (trace ?R) = Wait logReaderWg"
      using last_cr_trace [OF o] by (simp add: tr)
    ultimately show ?thesis ..
  qed
  from a b show "teardown_steps cont (trace ?R) =
       (if ContainerStart (ContainerBackend config) cont = None \<and>
           (\<exists>logChan. ContainerLogs (ContainerBackend config) cont = Inr logChan) \<and>
           select_recv (deliverable (ContainerWait (ContainerBackend config) cont)
             (sent_errors (sidecars ?R))) (select_pick rt) = None
        then []
        else if \<exists>run \<in> set (sidecars ?R). snd run = Blocked
        then [Stop_sidecars, Join_sidecars]
        else [Stop_sidecars, Join_sidecars,
              if NoCleanup config then Keep_main cont else Delete_main cont,
              Stop_log_reader, Join_log_reader]) \<and>
     (\<forall>ret. outcome ?R = Returned ret \<longrightarrow>
        teardown_steps cont (trace ?R) =
          [Stop_sidecars, Join_sidecars,
           if NoCleanup config then Keep_main cont else Delete_main cont,
           Stop_log_reader, Join_log_reader] \<and>
        last (trace ?R) = Wait logReaderWg)"
    by blast
qed

lemma example_outcome:
  "outcome (RunContainerizedAgent example_runtime example_config example_params example_store) =
     Returned None"
proof -
  let ?acs = "[example_db\<lparr>ac_Cpu := Finite 1, ac_Memory := 8192\<rparr>,
          example_cache\<lparr>ac_Cpu := Finite 4, ac_Memory := 512\<rparr>]"
  have s: "ContainerStart (ContainerBackend example_config) ''id-debian'' = None"
    and l: "ContainerLogs (ContainerBackend example_config) ''id-debian'' = Inr [''hello'']"
    by (simp_all add: example_config_def example_backend_def)
  from cr_outcome_waiting [OF s l, of example_runtime ?acs] example_sidecars_return
  have "cr_outcome (run_created example_runtime example_config ?acs ''id-debian'') = Returned None"
    by (simp add: example_select)
  with example_run show ?thesis
    by auto
qed

text \<open>
  The worked run returns; its teardown stops and joins the two additional
  containers, deletes the main container, and stops and joins the log reader.
\<close>

theorem teardown_in_fixed_order_witness:
  "Backend (Call_ContainerStart ''id-debian'')
     \<in> set (trace (RunContainerizedAgent example_runtime example_config example_params example_store)) \<and>
   outcome (RunContainerizedAgent example_runtime example_config example_params example_store) =
     Returned None \<and>
   teardown_steps ''id-debian''
     (trace (RunContainerizedAgent example_runtime example_config example_params example_store)) =
     [Stop_sidecars, Join_sidecars, Delete_main ''id-debian'', Stop_log_reader, Join_log_reader] \<and>
   last (trace (RunContainerizedAgent example_runtime example_config example_params example_store)) =
     Wait logReaderWg"
proof -
  let ?R = "RunContainerizedAgent example_runtime example_config example_params example_store"
  from example_run obtain pre where
    tr: "trace ?R = pre @ cr_trace (run_created example_runtime example_config
         [example_db\<lparr>ac_Cpu := Finite 1, ac_Memory := 8192\<rparr>,
          example_cache\<lparr>ac_Cpu := Finite 4, ac_Memory := 512\<rparr>] ''id-debian'')"
    by blast
  have m: "Backend (Call_ContainerStart ''id-debian'') \<in> set (trace ?R)"
    by (simp add: tr start_in_cr_trace)
  have nc: "\<not> NoCleanup example_config"
    by (simp add: example_config_def)
  from teardown_in_fixed_order [of "''id-debian''" example_runtime example_config example_params
      example_store] m example_outcome
  have "teardown_steps ''id-debian'' (trace ?R) =
          [Stop_sidecars, Join_sidecars,
           if NoCleanup example_config then Keep_main ''id-debian'' else Delete_main ''id-debian'',
           Stop_log_reader, Join_log_reader]"
    and "last (trace ?R) = Wait logReaderWg"
    by blast+
  with m nc example_outcome show ?thesis
    by simp
qed

end
